theory Spec2Isabelle
  imports Complex_Main "HOL-Library.AList" "HOL-Library.Sublist" "HOL-Library.Multiset"
begin

section \<open>JavaScript strings and the helpers the agents use on them\<close>

text \<open>
  A string is a list of code units. Isabelle's \<open>char\<close> has 256 values, so the model
  covers the strings whose code units lie in the Latin-1 range; \<open>length\<close> counts code
  units, as \<open>String.prototype.length\<close> does. Numbers are exact rationals.
\<close>

definition toLowerCase_char :: "char \<Rightarrow> char" where
  "toLowerCase_char c =
     (let n = (of_char c :: nat)
      in if (65 \<le> n \<and> n \<le> 90) \<or> (192 \<le> n \<and> n \<le> 222 \<and> n \<noteq> 215)
         then char_of (n + 32) else c)"

definition toLowerCase :: "string \<Rightarrow> string" where
  "toLowerCase s = map toLowerCase_char s"

text \<open>The character class \<open>[a-z0-9]\<close>.\<close>

definition is_a_z_0_9 :: "char \<Rightarrow> bool" where
  "is_a_z_0_9 c =
     (let n = (of_char c :: nat) in (97 \<le> n \<and> n \<le> 122) \<or> (48 \<le> n \<and> n \<le> 57))"

text \<open>\<open>s.replace(/[^a-z0-9]/g, '')\<close>: every code unit outside the class is dropped.\<close>

definition strip_non_alnum :: "string \<Rightarrow> string" where
  "strip_non_alnum s = filter is_a_z_0_9 s"

text \<open>\<open>s.includes(t)\<close>: \<open>t\<close> occurs in \<open>s\<close> as a contiguous substring.\<close>

fun includes_str :: "string \<Rightarrow> string \<Rightarrow> bool" where
  "includes_str [] t = (t = [])"
| "includes_str (c # cs) t = (prefix t (c # cs) \<or> includes_str cs t)"

section \<open>Tree parser (figmaParserAgent.ts)\<close>

subsection \<open>The design document\<close>

text \<open>
  Values the parser only tests for truthiness and copies are JSON values. A thrown
  \<open>Error\<close> is its message.
\<close>

datatype json =
    JNull
  | JBool bool
  | JNum rat
  | JStr string
  | JArr "json list"
  | JObj "(string \<times> json) list"

datatype js_error = Error string

fun js_truthy :: "json \<Rightarrow> bool" where
  "js_truthy JNull = False"
| "js_truthy (JBool b) = b"
| "js_truthy (JNum n) = (n \<noteq> 0)"
| "js_truthy (JStr s) = (s \<noteq> [])"
| "js_truthy (JArr _) = True"
| "js_truthy (JObj _) = True"

text \<open>
  Paints (fills and strokes), effects and font names carry the members the agents read,
  typed as the design tool exports them; \<open>None\<close> is a member that is absent.
\<close>

record rgba =
  col_r :: rat
  col_g :: rat
  col_b :: rat
  col_a :: "rat option"

record paint =
  paint_type :: "string option"
  paint_visible :: "bool option"
  paint_opacity :: "rat option"
  paint_color :: "rgba option"

record effect =
  effect_type :: "string option"
  effect_visible :: "bool option"
  effect_radius :: "rat option"
  effect_offset :: "(rat \<times> rat) option"
  effect_spread :: "rat option"
  effect_color :: "rgba option"

datatype fontName = FontString string | FontObject "string option" "string option"

text \<open>
  The properties \<open>traverseNodes\<close> copies from a source node, in the order it copies them.
  A source node holds the same members, each possibly absent.
\<close>

record properties =
  fills :: "paint list option"
  strokes :: "paint list option"
  effects :: "effect list option"
  styles :: "json option"
  layout :: "json option"
  layoutMode :: "string option"
  primaryAxisSizingMode :: "string option"
  counterAxisSizingMode :: "string option"
  paddingLeft :: "rat option"
  paddingRight :: "rat option"
  paddingTop :: "rat option"
  paddingBottom :: "rat option"
  itemSpacing :: "rat option"
  strokeWeight :: "rat option"
  cornerRadius :: "rat option"
  opacity :: "rat option"
  blendMode :: "string option"
  characters :: "string option"
  fontSize :: "rat option"
  fontName :: "fontName option"
  textAlignHorizontal :: "string option"
  textAlignVertical :: "string option"
  letterSpacing :: "json option"
  lineHeight :: "json option"
  textCase :: "string option"
  textDecoration :: "string option"
  textStyleId :: "string option"
  visible :: "bool option"

datatype raw_node =
  RawNode (raw_id: string) (raw_name: string) (raw_type: string) (raw_props: properties)
          (raw_children: "raw_node list option")

record raw_document =
  doc_children :: "raw_node list option"

record raw_file =
  rf_name :: "string option"
  rf_document :: "raw_document option"
  rf_lastModified :: "string option"
  rf_thumbnailUrl :: "string option"
  rf_version :: "string option"
  rf_schemaVersion :: "rat option"

text \<open>The empty object \<open>{}\<close>.\<close>

definition empty_object :: raw_file where
  "empty_object =
     \<lparr> rf_name = None, rf_document = None, rf_lastModified = None, rf_thumbnailUrl = None,
       rf_version = None, rf_schemaVersion = None \<rparr>"

subsection \<open>The parser's data (figma-parser/types.ts)\<close>

record FigmaNode =
  fn_id :: string
  fn_name :: string
  fn_type :: string
  fn_parentId :: "string option"
  fn_depth :: nat
  fn_children :: "string list"
  fn_properties :: properties

record text_style =
  ts_fontSize :: "rat option"
  ts_fontName :: "fontName option"
  ts_textAlignHorizontal :: "string option"
  ts_textAlignVertical :: "string option"
  ts_letterSpacing :: "json option"
  ts_lineHeight :: "json option"
  ts_textCase :: "string option"
  ts_textDecoration :: "string option"

datatype style_value = FillValue paint | TextValue text_style | EffectValue effect

record FigmaStyle =
  fs_id :: string
  fs_name :: string
  fs_type :: string
  fs_value :: style_value
  fs_nodeId :: string

record ('p, 's) FigmaComponent =
  fc_id :: string
  fc_name :: string
  fc_type :: string
  fc_children :: "string list"
  fc_properties :: 'p
  fc_styles :: 's

record FigmaPage =
  pg_id :: string
  pg_name :: string
  pg_type :: string
  pg_children :: "raw_node list"

record FigmaDesign =
  fd_name :: string
  fd_document :: raw_document
  fd_pages :: "FigmaPage list"
  fd_lastModified :: string
  fd_thumbnailUrl :: string
  fd_version :: string
  fd_schemaVersion :: rat

text \<open>
  The agent's private fields. \<open>extractedStyles\<close> is an object keyed by style id: a list
  of key/value pairs in insertion order, where assigning to a key that is present
  replaces its value in place (\<open>AList.update\<close>).
\<close>

record parser_state =
  designTree :: "FigmaDesign option"
  flattenedNodes :: "FigmaNode list"
  extractedStyles :: "(string \<times> FigmaStyle) list"
  components :: "(properties, (string \<times> FigmaStyle) list) FigmaComponent list"

text \<open>A newly constructed \<open>FigmaParserAgent\<close>.\<close>

definition new_parser :: parser_state where
  "new_parser = \<lparr> designTree = None, flattenedNodes = [], extractedStyles = [], components = [] \<rparr>"

subsection \<open>\<open>flattenNodes\<close>\<close>

text \<open>\<open>if (node.x) flatNode.properties.x = node.x\<close>: a falsy member is not copied.\<close>

definition truthy_num :: "rat option \<Rightarrow> rat option" where
  "truthy_num x = (case x of Some n \<Rightarrow> if n \<noteq> 0 then Some n else None | None \<Rightarrow> None)"

definition truthy_str :: "string option \<Rightarrow> string option" where
  "truthy_str x = (case x of Some s \<Rightarrow> if s \<noteq> [] then Some s else None | None \<Rightarrow> None)"

definition truthy_json :: "json option \<Rightarrow> json option" where
  "truthy_json x = (case x of Some v \<Rightarrow> if js_truthy v then Some v else None | None \<Rightarrow> None)"

definition truthy_font :: "fontName option \<Rightarrow> fontName option" where
  "truthy_font x =
     (case x of
        Some (FontString s) \<Rightarrow> if s \<noteq> [] then Some (FontString s) else None
      | Some (FontObject family style) \<Rightarrow> Some (FontObject family style)
      | None \<Rightarrow> None)"

definition copied_properties :: "properties \<Rightarrow> properties" where
  "copied_properties node =
     \<lparr> fills = fills node,
       strokes = strokes node,
       effects = effects node,
       styles = truthy_json (styles node),
       layout = truthy_json (layout node),
       layoutMode = truthy_str (layoutMode node),
       primaryAxisSizingMode = truthy_str (primaryAxisSizingMode node),
       counterAxisSizingMode = truthy_str (counterAxisSizingMode node),
       paddingLeft = truthy_num (paddingLeft node),
       paddingRight = truthy_num (paddingRight node),
       paddingTop = truthy_num (paddingTop node),
       paddingBottom = truthy_num (paddingBottom node),
       itemSpacing = truthy_num (itemSpacing node),
       strokeWeight = truthy_num (strokeWeight node),
       cornerRadius = truthy_num (cornerRadius node),
       opacity = truthy_num (opacity node),
       blendMode = truthy_str (blendMode node),
       characters = truthy_str (characters node),
       fontSize = truthy_num (fontSize node),
       fontName = truthy_font (fontName node),
       textAlignHorizontal = truthy_str (textAlignHorizontal node),
       textAlignVertical = truthy_str (textAlignVertical node),
       letterSpacing = truthy_json (letterSpacing node),
       lineHeight = truthy_json (lineHeight node),
       textCase = truthy_str (textCase node),
       textDecoration = truthy_str (textDecoration node),
       textStyleId = truthy_str (textStyleId node),
       visible = visible node \<rparr>"

text \<open>
  \<open>traverseNodes\<close> pushes the flat node onto \<open>flattenedNodes\<close> (the accumulator), then
  sets its \<open>children\<close> to the child ids and visits the children in order. The pushed
  object is the one whose \<open>children\<close> is set afterwards, so the array holds the ids.
\<close>

fun traverseNodes :: "raw_node \<Rightarrow> string option \<Rightarrow> nat \<Rightarrow> FigmaNode list \<Rightarrow> FigmaNode list" where
  "traverseNodes (RawNode i n t props cs) parentId depth acc =
     (let flatNode =
            \<lparr> fn_id = i, fn_name = n, fn_type = t, fn_parentId = parentId, fn_depth = depth,
              fn_children = (case cs of None \<Rightarrow> [] | Some children \<Rightarrow> map raw_id children),
              fn_properties = copied_properties props \<rparr>;
          acc1 = acc @ [flatNode]
      in case cs of
           None \<Rightarrow> acc1
         | Some children \<Rightarrow>
             fold (\<lambda>child a. traverseNodes child (Some i) (depth + 1) a) children acc1)"

text \<open>A page is traversed as a node that has only an id, a name, a type and children.\<close>

definition no_properties :: properties where
  "no_properties =
     \<lparr> fills = None, strokes = None, effects = None, styles = None, layout = None,
       layoutMode = None, primaryAxisSizingMode = None, counterAxisSizingMode = None,
       paddingLeft = None, paddingRight = None, paddingTop = None, paddingBottom = None,
       itemSpacing = None, strokeWeight = None, cornerRadius = None, opacity = None,
       blendMode = None, characters = None, fontSize = None, fontName = None,
       textAlignHorizontal = None, textAlignVertical = None, letterSpacing = None,
       lineHeight = None, textCase = None, textDecoration = None, textStyleId = None,
       visible = None \<rparr>"

definition page_node :: "FigmaPage \<Rightarrow> raw_node" where
  "page_node page =
     RawNode (pg_id page) (pg_name page) (pg_type page) no_properties (Some (pg_children page))"

definition flatten_pages :: "FigmaPage list \<Rightarrow> FigmaNode list" where
  "flatten_pages pages = fold (\<lambda>page acc. traverseNodes (page_node page) None 0 acc) pages []"

definition flattenNodes :: "parser_state \<Rightarrow> js_error + parser_state" where
  "flattenNodes st =
     (case designTree st of
        None \<Rightarrow> Inl (Error ''Design tree not initialized'')
      | Some tree \<Rightarrow> Inr (st\<lparr> flattenedNodes := flatten_pages (fd_pages tree) \<rparr>))"

subsection \<open>\<open>extractStyles\<close>\<close>

text \<open>
  The bodies of the two inner \<open>forEach\<close> loops and of the text branch. The guard is
  \<open>fill.type && fill.visible !== false\<close> (an absent or empty type is falsy), the id is
  \<open>fill-${node.id}-${fill.type}\<close>, and the record is assigned under that id.
\<close>

definition extract_fill :: "FigmaNode \<Rightarrow> paint \<Rightarrow> (string \<times> FigmaStyle) list \<Rightarrow> (string \<times> FigmaStyle) list" where
  "extract_fill node fill st =
     (case truthy_str (paint_type fill) of
        None \<Rightarrow> st
      | Some t \<Rightarrow>
          if paint_visible fill \<noteq> Some False then
            (let styleId = ''fill-'' @ fn_id node @ ''-'' @ t
             in AList.update styleId
                  \<lparr> fs_id = styleId, fs_name = fn_name node @ '' Fill'', fs_type = ''FILL'',
                    fs_value = FillValue fill, fs_nodeId = fn_id node \<rparr> st)
          else st)"

definition extract_text :: "FigmaNode \<Rightarrow> (string \<times> FigmaStyle) list \<Rightarrow> (string \<times> FigmaStyle) list" where
  "extract_text node st =
     (if fn_type node = ''TEXT'' \<and> truthy_num (fontSize (fn_properties node)) \<noteq> None then
        (let styleId = ''text-'' @ fn_id node; p = fn_properties node
         in AList.update styleId
              \<lparr> fs_id = styleId, fs_name = fn_name node @ '' Text'', fs_type = ''TEXT'',
                fs_value = TextValue
                  \<lparr> ts_fontSize = fontSize p, ts_fontName = fontName p,
                    ts_textAlignHorizontal = textAlignHorizontal p,
                    ts_textAlignVertical = textAlignVertical p,
                    ts_letterSpacing = letterSpacing p, ts_lineHeight = lineHeight p,
                    ts_textCase = textCase p, ts_textDecoration = textDecoration p \<rparr>,
                fs_nodeId = fn_id node \<rparr> st)
      else st)"

definition extract_effect :: "FigmaNode \<Rightarrow> effect \<Rightarrow> (string \<times> FigmaStyle) list \<Rightarrow> (string \<times> FigmaStyle) list" where
  "extract_effect node e st =
     (case truthy_str (effect_type e) of
        None \<Rightarrow> st
      | Some t \<Rightarrow>
          if effect_visible e \<noteq> Some False then
            (let styleId = ''effect-'' @ fn_id node @ ''-'' @ t
             in AList.update styleId
                  \<lparr> fs_id = styleId, fs_name = fn_name node @ '' Effect'', fs_type = ''EFFECT'',
                    fs_value = EffectValue e, fs_nodeId = fn_id node \<rparr> st)
          else st)"

text \<open>The body of the \<open>forEach\<close> over the flattened nodes.\<close>

definition extract_node_styles :: "FigmaNode \<Rightarrow> (string \<times> FigmaStyle) list \<Rightarrow> (string \<times> FigmaStyle) list" where
  "extract_node_styles node st =
     (let st1 = (case fills (fn_properties node) of
                   Some fs \<Rightarrow> fold (extract_fill node) fs st
                 | None \<Rightarrow> st);
          st2 = extract_text node st1
      in case effects (fn_properties node) of
           Some es \<Rightarrow> fold (extract_effect node) es st2
         | None \<Rightarrow> st2)"

definition extractStyles :: "parser_state \<Rightarrow> js_error + parser_state" where
  "extractStyles st =
     (if designTree st = None \<or> flattenedNodes st = [] then
        Inl (Error ''Design tree or flattened nodes not initialized'')
      else Inr (st\<lparr> extractedStyles :=
                       fold extract_node_styles (flattenedNodes st) (extractedStyles st) \<rparr>))"

subsection \<open>\<open>identifyComponents\<close>\<close>

definition identifyComponents :: "parser_state \<Rightarrow> js_error + parser_state" where
  "identifyComponents st =
     (if designTree st = None \<or> flattenedNodes st = [] then
        Inl (Error ''Design tree or flattened nodes not initialized'')
      else Inr (st\<lparr> components :=
        map (\<lambda>node.
               (let childNodes = filter (\<lambda>childNode. fn_parentId childNode = Some (fn_id node))
                                        (flattenedNodes st)
                in \<lparr> fc_id = fn_id node, fc_name = fn_name node, fc_type = fn_type node,
                     fc_children = map fn_id childNodes,
                     fc_properties = fn_properties node,
                     fc_styles =
                       fold (\<lambda>style styles.
                               if fs_nodeId style = fn_id node
                               then AList.update (fs_id style) style styles else styles)
                            (map snd (extractedStyles st)) [] \<rparr>))
            (filter (\<lambda>node. fn_type node = ''COMPONENT'' \<or> fn_type node = ''INSTANCE'')
                    (flattenedNodes st)) \<rparr>))"

subsection \<open>\<open>parseJson\<close> and the getters\<close>

text \<open>
  \<open>parseJson\<close> returns the design tree or throws, and leaves the agent in a new state.
  The three steps throw before they assign anything; \<open>parseJson\<close> catches what they throw
  and throws again with its own prefix. \<open>now\<close> is \<open>new Date().toISOString()\<close>.
\<close>

definition rethrow :: "js_error \<Rightarrow> js_error" where
  "rethrow e = (case e of Error message \<Rightarrow> Error (''Failed to parse Figma file: '' @ message))"

definition parseJson :: "string \<Rightarrow> raw_file \<Rightarrow> parser_state \<Rightarrow> (js_error + FigmaDesign) \<times> parser_state" where
  "parseJson now jsonData st =
     (case rf_document jsonData of
        None \<Rightarrow> (Inl (rethrow (Error ''Invalid Figma file format'')), st)
      | Some document \<Rightarrow>
         (case doc_children document of
            None \<Rightarrow> (Inl (rethrow (Error ''Invalid Figma file format'')), st)
          | Some pages \<Rightarrow>
             (let tree =
                    \<lparr> fd_name = (case truthy_str (rf_name jsonData) of Some n \<Rightarrow> n | None \<Rightarrow> ''Untitled Design''),
                      fd_document = document,
                      fd_pages =
                        map (\<lambda>page. \<lparr> pg_id = raw_id page, pg_name = raw_name page,
                                       pg_type = raw_type page,
                                       pg_children = (case raw_children page of
                                                        Some cs \<Rightarrow> cs | None \<Rightarrow> []) \<rparr>)
                            pages,
                      fd_lastModified = (case truthy_str (rf_lastModified jsonData) of Some d \<Rightarrow> d | None \<Rightarrow> now),
                      fd_thumbnailUrl = (case truthy_str (rf_thumbnailUrl jsonData) of Some u \<Rightarrow> u | None \<Rightarrow> ''''),
                      fd_version = (case truthy_str (rf_version jsonData) of Some v \<Rightarrow> v | None \<Rightarrow> ''1''),
                      fd_schemaVersion = (case truthy_num (rf_schemaVersion jsonData) of Some v \<Rightarrow> v | None \<Rightarrow> 0) \<rparr>;
                  st1 = st\<lparr> designTree := Some tree \<rparr>
              in case flattenNodes st1 of
                   Inl e \<Rightarrow> (Inl (rethrow e), st1)
                 | Inr st2 \<Rightarrow>
                    (case extractStyles st2 of
                       Inl e \<Rightarrow> (Inl (rethrow e), st2)
                     | Inr st3 \<Rightarrow>
                        (case identifyComponents st3 of
                           Inl e \<Rightarrow> (Inl (rethrow e), st3)
                         | Inr st4 \<Rightarrow> (Inr tree, st4))))))"

definition getFlattenedNodes :: "parser_state \<Rightarrow> FigmaNode list" where
  "getFlattenedNodes st = flattenedNodes st"

definition getExtractedStyles :: "parser_state \<Rightarrow> (string \<times> FigmaStyle) list" where
  "getExtractedStyles st = extractedStyles st"

definition getComponents ::
  "parser_state \<Rightarrow> (properties, (string \<times> FigmaStyle) list) FigmaComponent list" where
  "getComponents st = components st"

subsection \<open>The source tree, for stating what \<open>flattenNodes\<close> returns\<close>

text \<open>The number of nodes of a source tree, and of the page trees of a document.\<close>

fun count_nodes :: "raw_node \<Rightarrow> nat" where
  "count_nodes (RawNode i n t props cs) =
     1 + (case cs of None \<Rightarrow> 0 | Some children \<Rightarrow> sum_list (map count_nodes children))"

definition total_nodes :: "FigmaPage list \<Rightarrow> nat" where
  "total_nodes pages = sum_list (map (\<lambda>page. count_nodes (page_node page)) pages)"

text \<open>
  The ids of a source tree: a node before its children, the children left to right. A
  document is well formed when no id occurs twice in its page trees.
\<close>

fun source_ids :: "raw_node \<Rightarrow> string list" where
  "source_ids (RawNode i n t props cs) =
     i # (case cs of None \<Rightarrow> [] | Some children \<Rightarrow> concat (map source_ids children))"

definition document_ids :: "FigmaPage list \<Rightarrow> string list" where
  "document_ids pages = concat (map (\<lambda>page. source_ids (page_node page)) pages)"

definition well_formed :: "FigmaPage list \<Rightarrow> bool" where
  "well_formed pages = distinct (document_ids pages)"

text \<open>
  The depth-first listing of a tree as the specification words it: the entry of the node,
  then the listings of its children, each child one level deeper with the node as parent.
\<close>

fun preorder :: "raw_node \<Rightarrow> string option \<Rightarrow> nat \<Rightarrow> FigmaNode list" where
  "preorder (RawNode i n t props cs) parentId depth =
     \<lparr> fn_id = i, fn_name = n, fn_type = t, fn_parentId = parentId, fn_depth = depth,
       fn_children = (case cs of None \<Rightarrow> [] | Some children \<Rightarrow> map raw_id children),
       fn_properties = copied_properties props \<rparr>
     # (case cs of
          None \<Rightarrow> []
        | Some children \<Rightarrow> concat (map (\<lambda>child. preorder child (Some i) (depth + 1)) children))"

definition forest :: "raw_node list \<Rightarrow> string option \<Rightarrow> nat \<Rightarrow> FigmaNode list" where
  "forest ts parentId depth = concat (map (\<lambda>t. preorder t parentId depth) ts)"

text \<open>
  Every entry of a listing either is a root of the listing (its id is one of the root
  ids, and it has the given parent and depth) or has its parent among the entries before
  it: the entry names that parent, is one level below it, and is listed among its children.
\<close>

definition linked :: "string set \<Rightarrow> string option \<Rightarrow> nat \<Rightarrow> FigmaNode list \<Rightarrow> bool" where
  "linked roots parentId depth xs =
     (\<forall>ys x zs. xs = ys @ x # zs \<longrightarrow>
        (fn_id x \<in> roots \<and> fn_parentId x = parentId \<and> fn_depth x = depth) \<or>
        (\<exists>y \<in> set ys. fn_parentId x = Some (fn_id y) \<and> fn_depth x = fn_depth y + 1 \<and>
                        fn_id x \<in> set (fn_children y)))"

subsection \<open>The styles of a node, for stating what \<open>extractStyles\<close> stores\<close>















definition example_design :: "FigmaPage list \<Rightarrow> FigmaDesign" where
  "example_design pages =
     \<lparr> fd_name = ''Test Design'', fd_document = \<lparr> doc_children = Some [] \<rparr>, fd_pages = pages,
       fd_lastModified = '''', fd_thumbnailUrl = '''', fd_version = ''1'', fd_schemaVersion = 0 \<rparr>"


text \<open>The document of the parser's tests: a page, a button component on it, its label.\<close>

definition test_pages :: "FigmaPage list" where
  "test_pages =
     [\<lparr> pg_id = ''1:1'', pg_name = ''Page 1'', pg_type = ''CANVAS'',
        pg_children =
          [RawNode ''2:1'' ''Button'' ''COMPONENT''
             (no_properties
                \<lparr> fills := Some [\<lparr> paint_type = Some ''SOLID'', paint_visible = None,
                                   paint_opacity = None,
                                   paint_color = Some \<lparr> col_r = 1 / 5, col_g = 2 / 5, col_b = 4 / 5,
                                                        col_a = Some 1 \<rparr> \<rparr>] \<rparr>)
             (Some [RawNode ''3:1'' ''Label'' ''TEXT''
                      (no_properties
                         \<lparr> fills := Some [\<lparr> paint_type = Some ''SOLID'', paint_visible = None,
                                            paint_opacity = None,
                                            paint_color = Some \<lparr> col_r = 1, col_g = 1, col_b = 1,
                                                                 col_a = Some 1 \<rparr> \<rparr>],
                           characters := Some ''Button'', fontSize := Some 16 \<rparr>)
                      None])] \<rparr>]"

text \<open>A parser whose design tree holds these pages, before \<open>flattenNodes\<close> runs.\<close>

definition test_parser :: parser_state where
  "test_parser =
     \<lparr> designTree = Some (example_design test_pages), flattenedNodes = [],
       extractedStyles = [], components = [] \<rparr>"

text \<open>The same parser after \<open>flattenNodes\<close>, and the entry of the label in its list.\<close>

definition flattened_parser :: parser_state where
  "flattened_parser = test_parser \<lparr> flattenedNodes := flatten_pages test_pages \<rparr>"


text \<open>
  The test document as the file the parser is given, and a parser that has parsed it.
\<close>

definition test_file :: raw_file where
  "test_file =
     \<lparr> rf_name = Some ''Test Design'',
       rf_document = Some \<lparr> doc_children = Some (map page_node test_pages) \<rparr>,
       rf_lastModified = None, rf_thumbnailUrl = None, rf_version = None,
       rf_schemaVersion = None \<rparr>"

definition used_parser :: parser_state where
  "used_parser = snd (parseJson ''2026-01-01T00:00:00.000Z'' test_file new_parser)"

section \<open>Pattern and style analyzer (designAnalyzerAgent.ts)\<close>

subsection \<open>The analyzer's data (design-analyzer/types.ts)\<close>

datatype severity = SevError | SevWarning | SevInfo

record ComponentPattern =
  cp_id :: string
  cp_type :: string
  cp_nodeId :: string
  cp_name :: string
  cp_confidence :: rat
  cp_properties :: "(string \<times> json) list"
  cp_matchedNodes :: "string list"

record StyleIssue =
  si_id :: string
  si_type :: string
  si_severity :: severity
  si_message :: string
  si_details :: "(string \<times> json) list"
  si_suggestion :: string

subsection \<open>\<open>detectButtonPatterns\<close>\<close>

definition is_text_child_of :: "FigmaNode \<Rightarrow> FigmaNode \<Rightarrow> bool" where
  "is_text_child_of node child = (fn_parentId child = Some (fn_id node) \<and> fn_type child = ''TEXT'')"

definition paint_shown :: "paint \<Rightarrow> bool" where
  "paint_shown fill = (paint_visible fill \<noteq> Some False)"

text \<open>The predicate of the \<open>filter\<close> that selects the button candidates.\<close>

definition button_candidate :: "FigmaNode list \<Rightarrow> FigmaNode \<Rightarrow> bool" where
  "button_candidate flattened node =
     (let nameHint = (includes_str (toLowerCase (fn_name node)) ''button'' \<or>
                      includes_str (toLowerCase (fn_name node)) ''btn'');
          hasButtonShape = (cornerRadius (fn_properties node) \<noteq> None);
          hasButtonFill = (case fills (fn_properties node) of
                             Some fs \<Rightarrow> list_ex paint_shown fs
                           | None \<Rightarrow> False);
          hasTextChild = list_ex (is_text_child_of node) flattened
      in (nameHint \<or> (hasButtonShape \<and> hasButtonFill)) \<and> hasTextChild)"

definition button_variant :: "FigmaNode \<Rightarrow> string" where
  "button_variant node =
     (case fills (fn_properties node) of
        None \<Rightarrow> ''primary''
      | Some fs \<Rightarrow>
         (case find paint_shown fs of
            None \<Rightarrow> ''outline''
          | Some fill \<Rightarrow>
              if truthy_num (paint_opacity fill) \<noteq> None \<and> the (paint_opacity fill) < 1
              then ''secondary''
              else if paint_type fill = Some ''SOLID'' \<and> paint_color fill \<noteq> None \<and>
                      col_a (the (paint_color fill)) = Some 0
              then ''outline''
              else ''primary''))"

definition button_size :: "FigmaNode option \<Rightarrow> string" where
  "button_size textChild =
     (case textChild of
        None \<Rightarrow> ''md''
      | Some child \<Rightarrow>
         (case truthy_num (fontSize (fn_properties child)) of
            None \<Rightarrow> ''md''
          | Some fsize \<Rightarrow> if fsize < 14 then ''sm'' else if fsize > 16 then ''lg'' else ''md''))"

definition button_label :: "FigmaNode option \<Rightarrow> string" where
  "button_label textChild =
     (case textChild of
        None \<Rightarrow> ''Button''
      | Some child \<Rightarrow>
         (case truthy_str (characters (fn_properties child)) of
            None \<Rightarrow> ''Button''
          | Some text \<Rightarrow> text))"

text \<open>The pattern pushed for one candidate.\<close>

definition button_pattern :: "FigmaNode list \<Rightarrow> FigmaNode \<Rightarrow> ComponentPattern" where
  "button_pattern flattened node =
     (let textChild = find (is_text_child_of node) flattened
      in \<lparr> cp_id = ''button-'' @ fn_id node,
           cp_type = ''button'',
           cp_nodeId = fn_id node,
           cp_name = fn_name node,
           cp_confidence = 85 / 100,
           cp_properties =
             [(''variant'', JStr (button_variant node)),
              (''size'', JStr (button_size textChild)),
              (''label'', JStr (button_label textChild)),
              (''disabled'', JBool (case opacity (fn_properties node) of
                                      None \<Rightarrow> False | Some v \<Rightarrow> v < 1))],
           cp_matchedNodes =
             fn_id node # (case textChild of None \<Rightarrow> [] | Some child \<Rightarrow> [fn_id child]) \<rparr>)"

text \<open>
  \<open>detectButtonPatterns\<close> pushes one pattern per candidate onto \<open>this.patterns\<close>.
\<close>

definition detectButtonPatterns :: "FigmaNode list \<Rightarrow> ComponentPattern list \<Rightarrow> ComponentPattern list" where
  "detectButtonPatterns flattened patterns =
     patterns @ map (button_pattern flattened) (filter (button_candidate flattened) flattened)"

subsection \<open>\<open>calculatePatternConfidence\<close>\<close>

text \<open>The three adjustments made to each pattern, in order.\<close>

definition adjust_confidence :: "ComponentPattern \<Rightarrow> ComponentPattern" where
  "adjust_confidence pattern =
     (let c0 = cp_confidence pattern;
          c1 = (if includes_str (toLowerCase (cp_name pattern)) (cp_type pattern)
                then min 1 (c0 + 1 / 10) else c0);
          c2 = (if length (cp_matchedNodes pattern) > 3 then min 1 (c1 + 5 / 100) else c1);
          c3 = (if length (cp_properties pattern) < 2 then max 0 (c2 - 1 / 10) else c2)
      in pattern\<lparr> cp_confidence := c3 \<rparr>)"

text \<open>Returns the average confidence and the adjusted \<open>this.patterns\<close>.\<close>

definition calculatePatternConfidence :: "ComponentPattern list \<Rightarrow> rat \<times> ComponentPattern list" where
  "calculatePatternConfidence patterns =
     (if patterns = [] then (0, patterns)
      else (let adjusted = map adjust_confidence patterns
            in (sum_list (map cp_confidence adjusted) / of_nat (length adjusted), adjusted)))"

subsection \<open>\<open>validateTypography\<close>\<close>




definition standardSizes :: "rat list" where
  "standardSizes = [12, 14, 16, 18, 20, 24, 32, 40, 48, 56, 64]"



text \<open>
  \<open>findNearestStandardSize\<close>: \<open>reduce\<close> without an initial value starts from the first
  element; on an empty array it throws, which is \<open>None\<close> here.
\<close>

definition findNearestStandardSize :: "rat \<Rightarrow> rat list \<Rightarrow> rat option" where
  "findNearestStandardSize fsize sizes =
     (case sizes of
        [] \<Rightarrow> None
      | first # rest \<Rightarrow>
          Some (foldl (\<lambda>prev curr. if \<bar>curr - fsize\<bar> < \<bar>prev - fsize\<bar> then curr else prev)
                      first rest))"

text \<open>
  The issue pushed for one non-standard size. \<open>show_num\<close> is the conversion of a number
  to a string that template literals apply.
\<close>

definition non_standard_issue :: "(rat \<Rightarrow> string) \<Rightarrow> rat \<times> string list \<Rightarrow> StyleIssue" where
  "non_standard_issue show_num entry =
     (case entry of (fsize, nodeIds) \<Rightarrow>
        \<lparr> si_id = ''typography-non-standard-'' @ show_num fsize,
          si_type = ''typography'',
          si_severity = SevInfo,
          si_message = ''Found non-standard font size: '' @ show_num fsize @ ''px'',
          si_details = [(''fontSize'', JNum fsize), (''affectedNodes'', JArr (map JStr nodeIds))],
          si_suggestion = ''Consider using the nearest standard size: ''
            @ (case findNearestStandardSize fsize standardSizes of
                 Some nearest \<Rightarrow> show_num nearest | None \<Rightarrow> '''')
            @ ''px'' \<rparr>)"




subsection \<open>The formulas of the specification\<close>

text \<open>
  The button confidence as the specification words it: 0.5 for the exact name
  \<open>button\<close>, 0.3 for a partial name match, else 0; plus 0.2 if a corner radius is present;
  plus 0.3 if a text child exists; capped at 1.
\<close>

definition spec_button_confidence :: "FigmaNode list \<Rightarrow> FigmaNode \<Rightarrow> rat" where
  "spec_button_confidence flattened node =
     min 1
       ((if toLowerCase (fn_name node) = ''button'' then 5 / 10
         else if includes_str (toLowerCase (fn_name node)) ''button'' \<or>
                 includes_str (toLowerCase (fn_name node)) ''btn'' then 3 / 10
         else 0)
        + (if cornerRadius (fn_properties node) \<noteq> None then 2 / 10 else 0)
        + (if list_ex (is_text_child_of node) flattened then 3 / 10 else 0))"


text \<open>The font size a non-standard issue is about, read from its details.\<close>

definition issue_font_size :: "StyleIssue \<Rightarrow> rat option" where
  "issue_font_size issue =
     (case map_of (si_details issue) ''fontSize'' of Some (JNum fsize) \<Rightarrow> Some fsize | _ \<Rightarrow> None)"


text \<open>Decimal digits of a natural number, for showing whole sizes.\<close>

fun digits :: "nat \<Rightarrow> string" where
  "digits n = (if n < 10 then [char_of (48 + n)] else digits (n div 10) @ [char_of (48 + n mod 10)])"


subsection \<open>Example designs\<close>

text \<open>
  The button scenario of the specification: a component named \<open>Primary Button\<close> with corner
  radius 4, a visible solid fill and one text child reading \<open>Submit\<close>.
\<close>

definition scenario_nodes :: "FigmaNode list" where
  "scenario_nodes =
     [\<lparr> fn_id = ''2:1'', fn_name = ''Primary Button'', fn_type = ''COMPONENT'',
        fn_parentId = Some ''1:1'', fn_depth = 1, fn_children = [''3:1''],
        fn_properties = no_properties
          \<lparr> fills := Some [\<lparr> paint_type = Some ''SOLID'', paint_visible = None,
                             paint_opacity = None,
                             paint_color = Some \<lparr> col_r = 1 / 5, col_g = 2 / 5, col_b = 4 / 5,
                                                  col_a = Some 1 \<rparr> \<rparr>],
            cornerRadius := Some 4 \<rparr> \<rparr>,
      \<lparr> fn_id = ''3:1'', fn_name = ''Label'', fn_type = ''TEXT'',
        fn_parentId = Some ''2:1'', fn_depth = 2, fn_children = [],
        fn_properties = no_properties \<lparr> characters := Some ''Submit'', fontSize := Some 16 \<rparr> \<rparr>]"


section \<open>Component mapper: name similarity (edsMapperAgent.ts)\<close>

subsection \<open>The distance matrix of \<open>levenshteinDistance\<close>\<close>

text \<open>
  The matrix \<open>d\<close> is an array of \<open>m + 1\<close> rows of \<open>n + 1\<close> numbers; \<open>d[i][j] = v\<close>
  replaces one cell. Each \<open>for\<close> loop over an index range is a \<open>fold\<close> over that range.
\<close>

definition matrix_set :: "nat list list \<Rightarrow> nat \<Rightarrow> nat \<Rightarrow> nat \<Rightarrow> nat list list" where
  "matrix_set d i j v = d[i := (d ! i)[j := v]]"

definition lev_cell :: "string \<Rightarrow> string \<Rightarrow> nat \<Rightarrow> nat \<Rightarrow> nat list list \<Rightarrow> nat list list" where
  "lev_cell s1 s2 j i d =
     (let cost = (if s1 ! (i - 1) = s2 ! (j - 1) then 0 else 1)
      in matrix_set d i j
           (min (min (d ! (i - 1) ! j + 1) (d ! i ! (j - 1) + 1)) (d ! (i - 1) ! (j - 1) + cost)))"

definition lev_init :: "nat \<Rightarrow> nat \<Rightarrow> nat list list" where
  "lev_init m n =
     (let d0 = replicate (m + 1) (replicate (n + 1) 0);
          d1 = fold (\<lambda>i d. matrix_set d i 0 i) [0..<m + 1] d0
      in fold (\<lambda>j d. matrix_set d 0 j j) [0..<n + 1] d1)"

definition lev_fill :: "string \<Rightarrow> string \<Rightarrow> nat list list \<Rightarrow> nat list list" where
  "lev_fill s1 s2 d =
     fold (\<lambda>j d. fold (lev_cell s1 s2 j) [1..<length s1 + 1] d) [1..<length s2 + 1] d"

definition levenshteinDistance :: "string \<Rightarrow> string \<Rightarrow> nat" where
  "levenshteinDistance s1 s2 =
     (let m = length s1; n = length s2
      in lev_fill s1 s2 (lev_init m n) ! m ! n)"

subsection \<open>\<open>calculateNameSimilarity\<close>\<close>

definition clean_name :: "string \<Rightarrow> string" where
  "clean_name name = strip_non_alnum (toLowerCase name)"

definition calculateNameSimilarity :: "string \<Rightarrow> string \<Rightarrow> rat" where
  "calculateNameSimilarity name1 name2 =
     (let clean1 = clean_name name1; clean2 = clean_name name2
      in if clean1 = [] \<or> clean2 = [] then 0
         else if clean1 = clean2 then 1
         else if includes_str clean1 clean2 \<or> includes_str clean2 clean1 then 9 / 10
         else (let distance = levenshteinDistance clean1 clean2;
                   maxLength = max (length clean1) (length clean2)
               in 1 - of_nat distance / of_nat maxLength))"

subsection \<open>The edit-distance recurrence\<close>

text \<open>
  The classic unit-cost edit distance between the prefix of length \<open>i\<close> of \<open>s1\<close> and
  the prefix of length \<open>j\<close> of \<open>s2\<close>: deleting, inserting and substituting a code unit
  cost 1 each, keeping an equal one costs nothing.
\<close>

fun lev_rec :: "'a list \<Rightarrow> 'a list \<Rightarrow> nat \<Rightarrow> nat \<Rightarrow> nat" where
  "lev_rec s1 s2 0 j = j"
| "lev_rec s1 s2 (Suc i) 0 = Suc i"
| "lev_rec s1 s2 (Suc i) (Suc j) =
     min (min (lev_rec s1 s2 i (Suc j) + 1) (lev_rec s1 s2 (Suc i) j + 1))
         (lev_rec s1 s2 i j + (if s1 ! i = s2 ! j then 0 else 1))"

definition levenshtein :: "'a list \<Rightarrow> 'a list \<Rightarrow> nat" where
  "levenshtein s1 s2 = lev_rec s1 s2 (length s1) (length s2)"

subsection \<open>Fallback mapping by name and properties\<close>

text \<open>
  The mapper reads a source component's id, name and own properties, and a library
  component's id, name and property keys. Here a component's \<open>properties\<close> object is the
  list of its key/value pairs in key order, as \<open>Object.keys\<close> lists them; the property
  values are carried along, never inspected.
\<close>

record 'w EDSComponent =
  eds_id :: string
  eds_name :: string
  eds_type :: string
  eds_description :: string
  eds_properties :: "(string \<times> 'w) list"
  eds_tags :: "string list"
  eds_category :: string

record 'v PropertyMapping =
  pm_figmaProperty :: string
  pm_edsProperty :: string
  pm_value :: 'v
  pm_confidence :: rat

record ('v, 's, 'w) ComponentMapping =
  cm_id :: string
  cm_figmaComponent :: "((string \<times> 'v) list, 's) FigmaComponent"
  cm_edsComponent :: "'w EDSComponent"
  cm_patternType :: string
  cm_confidence :: rat
  cm_propertyMappings :: "'v PropertyMapping list"
  cm_matchedNodes :: "string list"

text \<open>
  \<open>xs.sort((a, b) => b.similarity - a.similarity)\<close>: a stable sort by descending
  similarity; \<open>sort_key\<close> is a stable insertion sort.
\<close>

definition sort_by_similarity :: "('a \<times> rat) list \<Rightarrow> ('a \<times> rat) list" where
  "sort_by_similarity xs = sort_key (\<lambda>m. - snd m) xs"

definition findBestPropertyMatch :: "string \<Rightarrow> 'w EDSComponent \<Rightarrow> (string \<times> rat) option" where
  "findBestPropertyMatch figmaProperty edsComponent =
     (let matches = map (\<lambda>edsProp. (edsProp, calculateNameSimilarity figmaProperty edsProp))
                        (map fst (eds_properties edsComponent))
      in case sort_by_similarity matches of
           [] \<Rightarrow> None
         | best # _ \<Rightarrow> if snd best > 7 / 10 then Some best else None)"

definition map_one_component ::
  "'w EDSComponent list \<Rightarrow> ((string \<times> 'v) list, 's) FigmaComponent \<Rightarrow> ('v, 's, 'w) ComponentMapping list" where
  "map_one_component library figmaComponent =
     (let potentialMatches =
            sort_by_similarity
              (map (\<lambda>edsComponent.
                      (edsComponent, calculateNameSimilarity (fc_name figmaComponent) (eds_name edsComponent)))
                   library)
      in case potentialMatches of
           [] \<Rightarrow> []
         | (edsComponent, similarity) # _ \<Rightarrow>
             if similarity > 6 / 10 then
               [\<lparr> cm_id = ''mapping-'' @ fc_id figmaComponent @ ''-'' @ eds_id edsComponent,
                  cm_figmaComponent = figmaComponent,
                  cm_edsComponent = edsComponent,
                  cm_patternType = ''unknown'',
                  cm_confidence = similarity,
                  cm_propertyMappings =
                    concat (map (\<lambda>(figmaProp, v).
                                   case findBestPropertyMatch figmaProp edsComponent of
                                     None \<Rightarrow> []
                                   | Some (edsProp, sim) \<Rightarrow>
                                       [\<lparr> pm_figmaProperty = figmaProp, pm_edsProperty = edsProp,
                                          pm_value = v, pm_confidence = sim \<rparr>])
                                (fc_properties figmaComponent)),
                  cm_matchedNodes = [fc_id figmaComponent] \<rparr>]
             else [])"

text \<open>
  \<open>mapComponentsBasedOnNameAndProperties\<close>: the components no mapping names yet are
  selected first; each then pushes at most one mapping onto \<open>componentMappings\<close>. The
  library is the loaded one (\<open>mapComponents\<close> calls this only after its null check).
\<close>

definition fallback_mappings ::
  "'w EDSComponent list \<Rightarrow> ((string \<times> 'v) list, 's) FigmaComponent list \<Rightarrow> ('v, 's, 'w) ComponentMapping list
   \<Rightarrow> ('v, 's, 'w) ComponentMapping list" where
  "fallback_mappings library figmaComponents componentMappings =
     (let unmappedComponents =
            filter (\<lambda>component.
                      \<not> list_ex (\<lambda>mapping. fc_id (cm_figmaComponent mapping) = fc_id component)
                                componentMappings)
                   figmaComponents
      in concat (map (map_one_component library) unmappedComponents))"

definition mapComponentsBasedOnNameAndProperties ::
  "'w EDSComponent list \<Rightarrow> ((string \<times> 'v) list, 's) FigmaComponent list \<Rightarrow> ('v, 's, 'w) ComponentMapping list
   \<Rightarrow> ('v, 's, 'w) ComponentMapping list" where
  "mapComponentsBasedOnNameAndProperties library figmaComponents componentMappings =
     componentMappings @ fallback_mappings library figmaComponents componentMappings"

subsection \<open>The algorithm of the specification\<close>

text \<open>
  The name similarity as the specification words it: equal normalised strings give 1,
  containment gives 0.9, otherwise one minus the edit distance over the longer length.
\<close>

definition spec_similarity :: "string \<Rightarrow> string \<Rightarrow> rat" where
  "spec_similarity a b =
     (let na = clean_name a; nb = clean_name b
      in if na = nb then 1
         else if includes_str na nb \<or> includes_str nb na then 9 / 10
         else 1 - of_nat (levenshtein na nb) / of_nat (max (length na) (length nb)))"

subsection \<open>Invariants of the matrix loops\<close>

text \<open>
  The matrix keeps its shape, and the cells filled so far hold the recurrence: the columns
  before \<open>J\<close>, row 0, and the rows before \<open>I\<close> of column \<open>J\<close>.
\<close>

definition mshape :: "nat \<Rightarrow> nat \<Rightarrow> nat list list \<Rightarrow> bool" where
  "mshape m n d = (length d = m + 1 \<and> (\<forall>i\<le>m. length (d ! i) = n + 1))"

definition lev_inv :: "'a list \<Rightarrow> 'a list \<Rightarrow> nat \<Rightarrow> nat \<Rightarrow> nat \<Rightarrow> nat \<Rightarrow> nat list list \<Rightarrow> bool" where
  "lev_inv s1 s2 m n J I d =
     (mshape m n d \<and>
      (\<forall>i\<le>m. \<forall>j\<le>n. (j < J \<or> i = 0 \<or> (j = J \<and> i < I)) \<longrightarrow> d ! i ! j = lev_rec s1 s2 i j))"

section \<open>Code synthesizer (llmOrchestratorAgent.ts)\<close>

subsection \<open>The synthesizer's data (llm-orchestrator/types.ts)\<close>




record GeneratedComponent =
  gc_id :: string
  gc_name :: string
  gc_code :: string
  gc_language :: string
  gc_success :: bool
  gc_error :: "string option"

record GeneratedLayout =
  gl_name :: string
  gl_code :: string
  gl_language :: string
  gl_success :: bool
  gl_error :: "string option"

record CodeGenerationResult =
  cr_success :: bool
  cr_message :: string
  cr_components :: "GeneratedComponent list"
  cr_layout :: "GeneratedLayout option"
  cr_framework :: string
  cr_timestamp :: string




subsection \<open>Template key and language\<close>



subsection \<open>\<open>generateComponentCode\<close> and \<open>generateLayoutCode\<close>\<close>



subsection \<open>\<open>generateCode\<close>\<close>




subsection \<open>Single-line comments\<close>



subsection \<open>An example run\<close>






section \<open>Code validator (codeValidatorAgent.ts)\<close>

subsection \<open>The validator's data (code-validator/types.ts)\<close>

record location =
  loc_component :: string
  loc_line :: "int option"

record ValidationIssue =
  vi_id :: string
  vi_type :: string
  vi_severity :: severity
  vi_message :: string
  vi_location :: location
  vi_suggestion :: string

record SyntaxCheckResult =
  sy_passed :: bool
  sy_score :: rat
  sy_issues :: "ValidationIssue list"

record StyleCheckResult =
  sc_passed :: bool
  sc_score :: rat
  sc_issues :: "ValidationIssue list"
  sc_criticalIssues :: nat

record ResponsivenessCheckResult =
  rc_passed :: bool
  rc_score :: rat
  rc_issues :: "ValidationIssue list"
  rc_isResponsive :: bool
  rc_testedBreakpoints :: "string list"

record ValidationResult =
  vr_success :: bool
  vr_message :: string
  vr_syntaxCheck :: SyntaxCheckResult
  vr_styleCheck :: StyleCheckResult
  vr_responsivenessCheck :: ResponsivenessCheckResult
  vr_overallScore :: rat
  vr_isProductionReady :: bool
  vr_issues :: "ValidationIssue list"
  vr_timestamp :: string

text \<open>The agent's private fields.\<close>

record validator_state =
  generatedCode :: "CodeGenerationResult option"
  validationIssues :: "ValidationIssue list"
  framework :: string

definition new_validator :: validator_state where
  "new_validator = \<lparr> generatedCode = None, validationIssues = [], framework = ''react'' \<rparr>"

definition initialize :: "CodeGenerationResult \<Rightarrow> validator_state \<Rightarrow> validator_state" where
  "initialize code st =
     st\<lparr> generatedCode := Some code, framework := cr_framework code, validationIssues := [] \<rparr>"

subsection \<open>String scans\<close>

text \<open>
  The character classes of the regular expressions: \<open>\s\<close> (and what \<open>trim\<close> strips),
  \<open>\d\<close>, \<open>[a-z]\<close> under the \<open>i\<close> flag, \<open>[a-z0-9]\<close> under the \<open>i\<close> flag and
  \<open>[A-Za-z0-9_]\<close> (also the word characters of \<open>\b\<close>).
\<close>

definition is_space :: "char \<Rightarrow> bool" where
  "is_space c = ((of_char c :: nat) \<in> {9, 10, 11, 12, 13, 32, 160})"

definition is_digit :: "char \<Rightarrow> bool" where
  "is_digit c = (let n = (of_char c :: nat) in 48 \<le> n \<and> n \<le> 57)"

definition is_letter :: "char \<Rightarrow> bool" where
  "is_letter c = (let n = (of_char c :: nat) in (65 \<le> n \<and> n \<le> 90) \<or> (97 \<le> n \<and> n \<le> 122))"

definition is_alnum :: "char \<Rightarrow> bool" where
  "is_alnum c = (is_letter c \<or> is_digit c)"

definition is_word :: "char \<Rightarrow> bool" where
  "is_word c = (is_alnum c \<or> c = CHR ''_'')"

text \<open>The double quote, the single quote and the backtick.\<close>

definition dq :: string where "dq = [CHR 0x22]"
definition sq :: string where "sq = [CHR 0x27]"
definition bt :: string where "bt = [CHR 0x60]"

text \<open>\<open>(code.match(/c/g) || []).length\<close> for a single character \<open>c\<close>.\<close>

definition count_char :: "char \<Rightarrow> string \<Rightarrow> nat" where
  "count_char c s = length (filter (\<lambda>x. x = c) s)"

text \<open>\<open>code.split('\n')\<close>.\<close>

fun split_lines :: "string \<Rightarrow> string list" where
  "split_lines [] = [[]]"
| "split_lines (c # cs) =
     (if c = CHR 0x0A then [] # split_lines cs
      else (case split_lines cs of [] \<Rightarrow> [[c]] | l # ls \<Rightarrow> (c # l) # ls))"

text \<open>\<open>xs.findIndex(P)\<close>: the index of the first element that satisfies \<open>P\<close>, or -1.\<close>

definition findIndex :: "('a \<Rightarrow> bool) \<Rightarrow> 'a list \<Rightarrow> int" where
  "findIndex P xs = (if list_ex P xs then int (length (takeWhile (\<lambda>x. \<not> P x) xs)) else - 1)"

text \<open>
  The suffixes of a string, one per start position; a regular expression is tried at
  each start position from the left.
\<close>

fun suffixes_of :: "string \<Rightarrow> string list" where
  "suffixes_of [] = [[]]"
| "suffixes_of (c # cs) = (c # cs) # suffixes_of cs"

text \<open>
  \<open>code.match(/\d+px/g)\<close>: the matches are counted; each ends at an occurrence of
  \<open>px\<close> that follows a digit, and each such occurrence ends one match.
\<close>

definition digit_then :: "string \<Rightarrow> string \<Rightarrow> bool" where
  "digit_then unit s = (case s of [] \<Rightarrow> False | d # rest \<Rightarrow> is_digit d \<and> prefix unit rest)"

definition count_fixed_pixels :: "string \<Rightarrow> nat" where
  "count_fixed_pixels code = length (filter (digit_then ''px'') (suffixes_of code))"

text \<open>\<open>code.match(/\d+rem|\d+em|\d+%|calc\(/g)\<close>, counted in the same way.\<close>

definition count_relative_units :: "string \<Rightarrow> nat" where
  "count_relative_units code =
     length (filter (\<lambda>s. digit_then ''rem'' s \<or> digit_then ''em'' s \<or> digit_then ''%'' s \<or>
                          prefix ''calc('' s)
                    (suffixes_of code))"

text \<open>
  \<open>/<([a-z][a-z0-9]*)\b[^>]*>/gi\<close> tried at the start of \<open>s\<close>: the tag name is the longest
  run of letters and digits after \<open><\<close>; \<open>\b\<close> needs a following character that is not a
  word character; the match ends at the next \<open>>\<close>. The result is the lower-cased name,
  the length of the match, and whether the match contains \<open>/>\<close>.
\<close>

definition match_open_tag :: "string \<Rightarrow> (string \<times> nat \<times> bool) option" where
  "match_open_tag s =
     (case s of
        [] \<Rightarrow> None
      | c # cs \<Rightarrow>
          if c = CHR ''<'' \<and> cs \<noteq> [] \<and> is_letter (hd cs) then
            (let name = takeWhile is_alnum cs; rest = dropWhile is_alnum cs
             in if rest = [] \<or> is_word (hd rest) \<or> CHR ''>'' \<notin> set rest then None
                else (let body = takeWhile (\<lambda>x. x \<noteq> CHR ''>'') rest
                      in Some (toLowerCase name, 1 + length name + length body + 1,
                               body \<noteq> [] \<and> last body = CHR ''/'')))
          else None)"

text \<open>\<open>/<\/([a-z][a-z0-9]*)\b[^>]*>/gi\<close> tried at the start of \<open>s\<close>.\<close>

definition match_close_tag :: "string \<Rightarrow> (string \<times> nat) option" where
  "match_close_tag s =
     (case s of
        c # d # cs \<Rightarrow>
          if c = CHR ''<'' \<and> d = CHR ''/'' \<and> cs \<noteq> [] \<and> is_letter (hd cs) then
            (let name = takeWhile is_alnum cs; rest = dropWhile is_alnum cs
             in if rest = [] \<or> is_word (hd rest) \<or> CHR ''>'' \<notin> set rest then None
                else (let body = takeWhile (\<lambda>x. x \<noteq> CHR ''>'') rest
                      in Some (toLowerCase name, 2 + length name + length body + 1)))
          else None
      | _ \<Rightarrow> None)"

text \<open>
  The \<open>while ((match = pattern.exec(code)) !== null)\<close> loops: the next search starts
  where the last match ended. \<open>skip\<close> counts the characters of the last match that are
  still to be passed over.
\<close>

fun open_tags :: "nat \<Rightarrow> string \<Rightarrow> string list" where
  "open_tags skip [] = []"
| "open_tags (Suc skip) (c # cs) = open_tags skip cs"
| "open_tags 0 (c # cs) =
     (case match_open_tag (c # cs) of
        None \<Rightarrow> open_tags 0 cs
      | Some (tagName, len, selfClosing) \<Rightarrow>
          (if selfClosing then [] else [tagName]) @ open_tags (len - 1) cs)"

fun closing_tags :: "nat \<Rightarrow> string \<Rightarrow> string list" where
  "closing_tags skip [] = []"
| "closing_tags (Suc skip) (c # cs) = closing_tags skip cs"
| "closing_tags 0 (c # cs) =
     (case match_close_tag (c # cs) of
        None \<Rightarrow> closing_tags 0 cs
      | Some (tagName, len) \<Rightarrow> tagName # closing_tags (len - 1) cs)"

text \<open>
  \<open>code.match(/const\s+([A-Za-z0-9_]+)\s*=/)\<close>: the first group of the leftmost match.
\<close>

definition match_const :: "string \<Rightarrow> string option" where
  "match_const s =
     (if prefix ''const'' s then
        (let r1 = drop 5 s; r2 = dropWhile is_space r1;
             name = takeWhile is_word r2; r3 = dropWhile is_space (dropWhile is_word r2)
         in if takeWhile is_space r1 = [] \<or> name = [] then None
            else (case r3 of c # _ \<Rightarrow> if c = CHR ''='' then Some name else None | [] \<Rightarrow> None))
      else None)"

fun find_const :: "string \<Rightarrow> string option" where
  "find_const [] = None"
| "find_const (c # cs) =
     (case match_const (c # cs) of Some name \<Rightarrow> Some name | None \<Rightarrow> find_const cs)"

text \<open>\<open>code.match(/name:\s*['"]([A-Za-z0-9_-]+)['"]/)\<close>, likewise.\<close>

definition is_quote :: "char \<Rightarrow> bool" where
  "is_quote c = (c = CHR 0x22 \<or> c = CHR 0x27)"

definition match_name :: "string \<Rightarrow> string option" where
  "match_name s =
     (if prefix ''name:'' s then
        (case dropWhile is_space (drop 5 s) of
           [] \<Rightarrow> None
         | q # r \<Rightarrow>
             (let name = takeWhile (\<lambda>c. is_word c \<or> c = CHR ''-'') r;
                  rest = dropWhile (\<lambda>c. is_word c \<or> c = CHR ''-'') r
              in if is_quote q \<and> name \<noteq> [] \<and> rest \<noteq> [] \<and> is_quote (hd rest)
                 then Some name else None))
      else None)"

fun find_name :: "string \<Rightarrow> string option" where
  "find_name [] = None"
| "find_name (c # cs) =
     (case match_name (c # cs) of Some name \<Rightarrow> Some name | None \<Rightarrow> find_name cs)"

text \<open>\<open>name[0].toUpperCase() + name.slice(1)\<close> for a name of word characters.\<close>

definition toUpperCase_char :: "char \<Rightarrow> char" where
  "toUpperCase_char c =
     (let n = (of_char c :: nat) in if 97 \<le> n \<and> n \<le> 122 then char_of (n - 32) else c)"

definition capitalize :: "string \<Rightarrow> string" where
  "capitalize name = (case name of [] \<Rightarrow> [] | c # cs \<Rightarrow> toUpperCase_char c # cs)"

subsection \<open>The scans of one artifact\<close>

definition mk_issue ::
  "string \<Rightarrow> string \<Rightarrow> severity \<Rightarrow> string \<Rightarrow> string \<Rightarrow> int option \<Rightarrow> string \<Rightarrow> ValidationIssue" where
  "mk_issue i t s message component line suggestion =
     \<lparr> vi_id = i, vi_type = t, vi_severity = s, vi_message = message,
       vi_location = \<lparr> loc_component = component, loc_line = line \<rparr>,
       vi_suggestion = suggestion \<rparr>"

text \<open>
  \<open>validateComponentSyntax\<close>; \<open>fw\<close> is \<open>this.framework\<close>. Each \<open>if\<close> that pushes an issue
  is one list that is empty or holds the issue.
\<close>

definition validateComponentSyntax :: "string \<Rightarrow> GeneratedComponent \<Rightarrow> ValidationIssue list" where
  "validateComponentSyntax fw component =
     (let code = gc_code component; lines = split_lines code
      in if fw = ''react'' \<or> fw = ''vue'' then
           (if \<not> includes_str code ''import '' \<and> \<not> includes_str code ''require(''
            then [mk_issue (''syntax-missing-imports-'' @ gc_id component) ''syntax'' SevWarning
                    ''Missing import statements'' (gc_name component) (Some 1)
                    ''Add necessary import statements at the top of the file'']
            else [])
           @ (if count_char CHR ''{'' code \<noteq> count_char CHR ''}'' code
              then [mk_issue (''syntax-unbalanced-braces-'' @ gc_id component) ''syntax'' SevError
                      ''Unbalanced curly braces'' (gc_name component) None
                      ''Ensure all opening braces have matching closing braces'']
              else [])
           @ (if count_char CHR ''('' code \<noteq> count_char CHR '')'' code
              then [mk_issue (''syntax-unbalanced-parens-'' @ gc_id component) ''syntax'' SevError
                      ''Unbalanced parentheses'' (gc_name component) None
                      ''Ensure all opening parentheses have matching closing parentheses'']
              else [])
           @ (if fw = ''react'' then
                (if includes_str code ''return ('' \<and> \<not> includes_str code ''return ('' \<and>
                    \<not> includes_str code ''</''
                 then [mk_issue (''syntax-invalid-jsx-'' @ gc_id component) ''syntax'' SevError
                         ''Invalid JSX syntax in return statement'' (gc_name component)
                         (Some (findIndex (\<lambda>line. includes_str line ''return ('') lines))
                         ''Ensure JSX elements are properly formatted and closed'']
                 else [])
                @ (if (includes_str code ''JSX'' \<or>
                       (includes_str code ''<'' \<and> includes_str code ''/>'')) \<and>
                      \<not> includes_str code ''import React'' \<and>
                      \<not> includes_str code (''from '' @ dq @ ''react'' @ dq) \<and>
                      \<not> includes_str code (''from '' @ sq @ ''react'' @ sq)
                   then [mk_issue (''syntax-missing-react-import-'' @ gc_id component) ''syntax'' SevError
                           ''Missing React import in JSX file'' (gc_name component) (Some 1)
                           (''Add '' @ dq @ ''import React from '' @ sq @ ''react'' @ sq @ '';'' @ dq
                            @ '' at the top of the file'')]
                   else [])
              else [])
           @ (if fw = ''vue'' then
                (if includes_str code ''<template>'' \<and> \<not> includes_str code ''</template>''
                 then [mk_issue (''syntax-invalid-template-'' @ gc_id component) ''syntax'' SevError
                         ''Unclosed template tag'' (gc_name component)
                         (Some (findIndex (\<lambda>line. includes_str line ''<template>'') lines))
                         ''Add closing </template> tag'']
                 else [])
                @ (if includes_str code ''<script>'' \<and> \<not> includes_str code ''</script>''
                   then [mk_issue (''syntax-invalid-script-'' @ gc_id component) ''syntax'' SevError
                           ''Unclosed script tag'' (gc_name component)
                           (Some (findIndex (\<lambda>line. includes_str line ''<script>'') lines))
                           ''Add closing </script> tag'']
                   else [])
              else [])
         else if fw = ''angular'' then
           (if \<not> includes_str code ''@Component''
            then [mk_issue (''syntax-missing-component-decorator-'' @ gc_id component) ''syntax'' SevError
                    ''Missing @Component decorator'' (gc_name component) None
                    ''Add @Component decorator to define the component'']
            else [])
           @ (if includes_str code ''template:'' \<and> \<not> includes_str code bt
              then [mk_issue (''syntax-invalid-template-syntax-'' @ gc_id component) ''syntax'' SevError
                      ''Invalid template syntax'' (gc_name component)
                      (Some (findIndex (\<lambda>line. includes_str line ''template:'') lines))
                      (''Use backticks ('' @ bt @ '') for multi-line templates'')]
              else [])
         else if fw = ''html'' then
           (if \<not> includes_str (toLowerCase code) ''<!doctype html>'' \<and>
               \<not> includes_str (toLowerCase code) ''<!DOCTYPE html>''
            then [mk_issue (''syntax-missing-doctype-'' @ gc_id component) ''syntax'' SevWarning
                    ''Missing DOCTYPE declaration'' (gc_name component) (Some 1)
                    ''Add <!DOCTYPE html> at the beginning of the file'']
            else [])
           @ (if length (open_tags 0 code) \<noteq> length (closing_tags 0 code)
              then [mk_issue (''syntax-unbalanced-html-tags-'' @ gc_id component) ''syntax'' SevError
                      ''Unbalanced HTML tags'' (gc_name component) None
                      ''Ensure all HTML tags are properly closed'']
              else [])
         else [])"

text \<open>
  The indentation loop of \<open>validateComponentStyle\<close>: \<open>previousIndent\<close> is the indent of
  the last line that is not blank (-1 before the first), \<open>previousLine\<close> is \<open>lines[i-1]\<close>;
  the result is \<open>inconsistentIndentLine\<close>.
\<close>

fun indent_scan :: "int \<Rightarrow> string \<Rightarrow> nat \<Rightarrow> string list \<Rightarrow> int" where
  "indent_scan previousIndent previousLine i [] = - 1"
| "indent_scan previousIndent previousLine i (line # rest) =
     (if list_all is_space line then indent_scan previousIndent line (i + 1) rest
      else (let indent = findIndex (\<lambda>c. \<not> is_space c) line
            in if previousIndent \<noteq> - 1 \<and> \<bar>indent - previousIndent\<bar> > 2 \<and>
                  \<not> includes_str previousLine ''{'' \<and> \<not> includes_str previousLine ''('' \<and>
                  \<not> includes_str line ''}'' \<and> \<not> includes_str line '')''
               then int i + 1
               else indent_scan indent line (i + 1) rest))"

definition validateComponentStyle :: "string \<Rightarrow> GeneratedComponent \<Rightarrow> ValidationIssue list" where
  "validateComponentStyle fw component =
     (let code = gc_code component; lines = split_lines code;
          inconsistentIndentLine = indent_scan (- 1) [] 0 lines;
          longLines = filter (\<lambda>(line, index). length line > 100) (zip lines [0..<length lines]);
          singleQuotes = count_char CHR 0x27 code;
          doubleQuotes = count_char CHR 0x22 code
      in (if inconsistentIndentLine \<noteq> - 1
          then [mk_issue (''style-inconsistent-indent-'' @ gc_id component) ''style'' SevWarning
                  ''Inconsistent indentation'' (gc_name component) (Some inconsistentIndentLine)
                  ''Use consistent indentation (2 or 4 spaces recommended)'']
          else [])
         @ (case longLines of
              [] \<Rightarrow> []
            | (line, index) # _ \<Rightarrow>
                [mk_issue (''style-line-too-long-'' @ gc_id component) ''style'' SevInfo
                   (''Found '' @ digits (length longLines) @ '' lines that exceed 100 characters'')
                   (gc_name component) (Some (int index + 1))
                   ''Break long lines into multiple lines for better readability''])
         @ (if singleQuotes > 0 \<and> doubleQuotes > 0 \<and> min singleQuotes doubleQuotes > 3
            then [mk_issue (''style-inconsistent-quotes-'' @ gc_id component) ''style'' SevInfo
                    ''Inconsistent quote style'' (gc_name component) None
                    ''Use consistent quote style (either single or double quotes)'']
            else [])
         @ (if fw = ''react'' then
              (case find_const code of
                 None \<Rightarrow> []
               | Some componentName \<Rightarrow>
                   if hd componentName \<noteq> toUpperCase_char (hd componentName)
                   then [mk_issue (''style-component-naming-'' @ gc_id component) ''style-critical''
                           SevWarning ''Component name should use PascalCase'' (gc_name component)
                           (Some (findIndex (\<lambda>line. includes_str line (''const '' @ componentName))
                                            lines + 1))
                           (''Rename component from '' @ dq @ componentName @ dq @ '' to '' @ dq
                            @ capitalize componentName @ dq)]
                   else [])
              @ (if includes_str code ''props.'' \<and> \<not> includes_str code ''...props''
                 then [mk_issue (''style-prop-destructuring-'' @ gc_id component) ''style'' SevInfo
                         ''Props should be destructured'' (gc_name component)
                         (Some (findIndex (\<lambda>line. includes_str line ''props.'') lines + 1))
                         ''Destructure props in the function parameters or at the beginning of the component'']
                 else [])
            else if fw = ''vue'' then
              (case find_name code of
                 None \<Rightarrow> []
               | Some componentName \<Rightarrow>
                   if \<not> includes_str componentName ''-'' \<and> \<not> includes_str componentName ''_''
                   then [mk_issue (''style-component-naming-'' @ gc_id component) ''style'' SevInfo
                           ''Vue component names should be multi-word'' (gc_name component)
                           (Some (findIndex (\<lambda>line. includes_str line
                                                       (''name: '' @ sq @ componentName @ sq))
                                            lines + 1))
                           ''Use kebab-case for component names and ensure they are multi-word to avoid conflicts with HTML elements'']
                   else [])
            else []))"

definition validateComponentResponsiveness :: "string \<Rightarrow> GeneratedComponent \<Rightarrow> ValidationIssue list" where
  "validateComponentResponsiveness fw component =
     (let code = gc_code component;
          hasMediaQueries = includes_str code ''@media'';
          fixedPixels = count_fixed_pixels code;
          relativeUnits = count_relative_units code;
          hasFlexbox = (includes_str code ''display: flex'' \<or> includes_str code ''display:flex'');
          hasGrid = (includes_str code ''display: grid'' \<or> includes_str code ''display:grid'');
          hasViewportMeta = (includes_str code ''viewport'' \<and> includes_str code ''width=device-width'')
      in (if \<not> hasMediaQueries \<and> fw \<noteq> ''react''
          then [mk_issue (''responsiveness-no-media-queries-'' @ gc_id component) ''responsiveness''
                  SevWarning ''No media queries found'' (gc_name component) None
                  ''Add media queries to handle different screen sizes'']
          else [])
         @ (if fixedPixels > 5 \<and>
               (relativeUnits = 0 \<or> (of_nat relativeUnits :: rat) < of_nat fixedPixels / 2)
            then [mk_issue (''responsiveness-fixed-units-'' @ gc_id component) ''responsiveness''
                    SevWarning ''Excessive use of fixed pixel units'' (gc_name component) None
                    ''Use relative units (rem, em, %) instead of fixed pixels for better responsiveness'']
            else [])
         @ (if \<not> hasFlexbox \<and> \<not> hasGrid \<and> includes_str (toLowerCase (gc_name component)) ''layout''
            then [mk_issue (''responsiveness-no-flexible-layout-'' @ gc_id component) ''responsiveness''
                    SevWarning ''No flexible layout system detected'' (gc_name component) None
                    ''Use Flexbox or CSS Grid for responsive layouts'']
            else [])
         @ (if fw = ''html'' \<and> \<not> hasViewportMeta
            then [mk_issue (''responsiveness-no-viewport-meta-'' @ gc_id component) ''responsiveness''
                    SevError ''Missing viewport meta tag'' (gc_name component) None
                    (''Add <meta name='' @ dq @ ''viewport'' @ dq @ '' content='' @ dq
                     @ ''width=device-width, initial-scale=1.0'' @ dq @ ''> in the head section'')]
            else []))"

text \<open>A layout is validated as the component \<open>{id: 'layout', ...layout}\<close>.\<close>

definition layout_component :: "GeneratedLayout \<Rightarrow> GeneratedComponent" where
  "layout_component l =
     \<lparr> gc_id = ''layout'', gc_name = gl_name l, gc_code = gl_code l, gc_language = gl_language l,
       gc_success = gl_success l, gc_error = gl_error l \<rparr>"

text \<open>The issues of every component, then of the layout if there is one.\<close>

definition collect_issues ::
  "(GeneratedComponent \<Rightarrow> ValidationIssue list) \<Rightarrow> CodeGenerationResult \<Rightarrow> ValidationIssue list" where
  "collect_issues validate code =
     concat (map validate (cr_components code))
     @ (case cr_layout code of None \<Rightarrow> [] | Some l \<Rightarrow> validate (layout_component l))"

subsection \<open>Scores\<close>

definition count_severity :: "severity \<Rightarrow> ValidationIssue list \<Rightarrow> nat" where
  "count_severity s issues = length (filter (\<lambda>issue. vi_severity issue = s) issues)"

definition calculateSyntaxScore :: "ValidationIssue list \<Rightarrow> rat" where
  "calculateSyntaxScore issues =
     (if issues = [] then 1
      else max 0 (1 - (of_nat (count_severity SevError issues) * (3 / 10)
                       + of_nat (count_severity SevWarning issues) * (1 / 10)
                       + of_nat (count_severity SevInfo issues) * (3 / 100))))"

definition style_critical :: "ValidationIssue \<Rightarrow> bool" where
  "style_critical issue =
     (vi_severity issue = SevError \<or>
      (vi_severity issue = SevWarning \<and> vi_type issue = ''style-critical''))"

definition calculateStyleScore :: "ValidationIssue list \<Rightarrow> rat" where
  "calculateStyleScore issues =
     (if issues = [] then 1
      else max 0 (1 - (of_nat (length (filter style_critical issues)) * (25 / 100)
                       + of_nat (length (filter (\<lambda>issue. vi_severity issue = SevWarning \<and>
                                                     vi_type issue \<noteq> ''style-critical'') issues))
                         * (1 / 10)
                       + of_nat (count_severity SevInfo issues) * (2 / 100))))"

definition calculateResponsivenessScore :: "ValidationIssue list \<Rightarrow> rat" where
  "calculateResponsivenessScore issues =
     (if issues = [] then 1
      else max 0 (1 - (of_nat (count_severity SevError issues) * (3 / 10)
                       + of_nat (count_severity SevWarning issues) * (15 / 100)
                       + of_nat (count_severity SevInfo issues) * (5 / 100))))"

definition calculateOverallScore :: "rat \<Rightarrow> rat \<Rightarrow> rat \<Rightarrow> rat" where
  "calculateOverallScore syntaxScore styleScore responsivenessScore =
     syntaxScore * (5 / 10) + styleScore * (3 / 10) + responsivenessScore * (2 / 10)"

subsection \<open>The three checks\<close>

text \<open>Each check returns its result and pushes its issues onto \<open>this.validationIssues\<close>.\<close>

definition checkSyntax ::
  "CodeGenerationResult \<Rightarrow> validator_state \<Rightarrow> SyntaxCheckResult \<times> validator_state" where
  "checkSyntax code st =
     (let syntaxIssues = collect_issues (validateComponentSyntax (framework st)) code
      in (\<lparr> sy_passed = (filter (\<lambda>issue. vi_severity issue = SevError) syntaxIssues = []),
            sy_score = calculateSyntaxScore syntaxIssues,
            sy_issues = syntaxIssues \<rparr>,
          st\<lparr> validationIssues := validationIssues st @ syntaxIssues \<rparr>))"

definition checkStyle ::
  "CodeGenerationResult \<Rightarrow> validator_state \<Rightarrow> StyleCheckResult \<times> validator_state" where
  "checkStyle code st =
     (let styleIssues = collect_issues (validateComponentStyle (framework st)) code;
          criticalIssues = length (filter style_critical styleIssues)
      in (\<lparr> sc_passed = (criticalIssues = 0),
            sc_score = calculateStyleScore styleIssues,
            sc_issues = styleIssues,
            sc_criticalIssues = criticalIssues \<rparr>,
          st\<lparr> validationIssues := validationIssues st @ styleIssues \<rparr>))"

definition checkResponsiveness ::
  "CodeGenerationResult \<Rightarrow> validator_state \<Rightarrow> ResponsivenessCheckResult \<times> validator_state" where
  "checkResponsiveness code st =
     (let responsivenessIssues = collect_issues (validateComponentResponsiveness (framework st)) code;
          responsivenessScore = calculateResponsivenessScore responsivenessIssues;
          isResponsive = (responsivenessScore \<ge> 7 / 10)
      in (\<lparr> rc_passed = isResponsive,
            rc_score = responsivenessScore,
            rc_issues = responsivenessIssues,
            rc_isResponsive = isResponsive,
            rc_testedBreakpoints = [''mobile'', ''tablet'', ''desktop''] \<rparr>,
          st\<lparr> validationIssues := validationIssues st @ responsivenessIssues \<rparr>))"

subsection \<open>\<open>validateCode\<close>\<close>

text \<open>
  \<open>validateCode\<close> returns the validation result or throws, and leaves the agent with the
  issues pushed. \<open>now\<close> is \<open>new Date().toISOString()\<close>.
\<close>

definition validateCode ::
  "string \<Rightarrow> validator_state \<Rightarrow> (js_error + ValidationResult) \<times> validator_state" where
  "validateCode now st =
     (case generatedCode st of
        None \<Rightarrow> (Inl (Error ''No generated code to validate''), st)
      | Some code \<Rightarrow>
         (case checkSyntax code st of (syntaxResults, st1) \<Rightarrow>
          case checkStyle code st1 of (styleResults, st2) \<Rightarrow>
          case checkResponsiveness code st2 of (responsivenessResults, st3) \<Rightarrow>
            (let overallScore =
                   calculateOverallScore (sy_score syntaxResults) (sc_score styleResults)
                     (rc_score responsivenessResults);
                 isProductionReady =
                   (overallScore \<ge> 8 / 10 \<and> length (sy_issues syntaxResults) = 0 \<and>
                    sc_criticalIssues styleResults = 0)
             in (Inr \<lparr> vr_success =
                         (filter (\<lambda>issue. vi_severity issue = SevError) (validationIssues st3) = []),
                       vr_message = (if isProductionReady
                                     then ''Code validation passed, ready for production''
                                     else ''Code validation completed with issues''),
                       vr_syntaxCheck = syntaxResults,
                       vr_styleCheck = styleResults,
                       vr_responsivenessCheck = responsivenessResults,
                       vr_overallScore = overallScore,
                       vr_isProductionReady = isProductionReady,
                       vr_issues = validationIssues st3,
                       vr_timestamp = now \<rparr>,
                 st3))))"

subsection \<open>An example run\<close>

text \<open>A generation result with one React component whose code has no import.\<close>

definition example_generated :: CodeGenerationResult where
  "example_generated =
     \<lparr> cr_success = True, cr_message = ''Code generation completed successfully'',
       cr_components =
         [\<lparr> gc_id = ''m1'', gc_name = ''Button'', gc_code = ''const Button = 1;'',
            gc_language = ''javascript'', gc_success = True, gc_error = None \<rparr>],
       cr_layout = None, cr_framework = ''react'', cr_timestamp = '''' \<rparr>"

section \<open>Verification\<close>

subsection \<open>Loops over index ranges\<close>

lemma fold_upt_invariant:
  assumes "P a x" and "a \<le> b"
    and "\<And>i y. a \<le> i \<Longrightarrow> i < b \<Longrightarrow> P i y \<Longrightarrow> P (Suc i) (f i y)"
  shows "P b (fold f [a..<b] x)"
  using assms(2,3)
proof (induction b)
  case 0
  with assms(1) show ?case by simp
next
  case (Suc b)
  show ?case
  proof (cases "a = Suc b")
    case True
    with assms(1) show ?thesis by simp
  next
    case False
    with Suc.prems(1) have ab: "a \<le> b" by simp
    have "P b (fold f [a..<b] x)"
      using Suc.IH [OF ab] Suc.prems(2) by simp
    then have "P (Suc b) (f b (fold f [a..<b] x))"
      using Suc.prems(2) [of b] ab by simp
    with ab show ?thesis by simp
  qed
qed

lemma mshape_matrix_set: "mshape m n d \<Longrightarrow> mshape m n (matrix_set d i j v)"
  by (cases "i < length d") (auto simp: mshape_def matrix_set_def nth_list_update)

lemma matrix_set_nth:
  "mshape m n d \<Longrightarrow> i \<le> m \<Longrightarrow> j \<le> n \<Longrightarrow> i' \<le> m \<Longrightarrow> j' \<le> n \<Longrightarrow>
   matrix_set d i j v ! i' ! j' = (if i' = i \<and> j' = j then v else d ! i' ! j')"
  by (auto simp: mshape_def matrix_set_def nth_list_update)

lemma lev_init_props:
  "mshape m n (lev_init m n) \<and> (\<forall>i\<le>m. lev_init m n ! i ! 0 = i) \<and> (\<forall>j\<le>n. lev_init m n ! 0 ! j = j)"
proof -
  let ?d0 = "replicate (m + 1) (replicate (n + 1) (0::nat))"
  let ?d1 = "fold (\<lambda>i d. matrix_set d i 0 i) [0..<m + 1] ?d0"
  have s0: "mshape m n ?d0"
    unfolding mshape_def by (simp del: replicate_Suc replicate.simps add: nth_replicate)
  have "mshape m n ?d1 \<and> (\<forall>i<m + 1. ?d1 ! i ! 0 = i)"
  proof (rule fold_upt_invariant [where P = "\<lambda>k d. mshape m n d \<and> (\<forall>i<k. d ! i ! 0 = i)"])
    show "mshape m n ?d0 \<and> (\<forall>i<0. ?d0 ! i ! 0 = i)" using s0 by blast
  next
    fix i y assume "i < m + 1" "mshape m n y \<and> (\<forall>k<i. y ! k ! 0 = k)"
    then show "mshape m n (matrix_set y i 0 i) \<and> (\<forall>k<Suc i. matrix_set y i 0 i ! k ! 0 = k)"
      by (auto simp: mshape_matrix_set matrix_set_nth less_Suc_eq)
  qed simp
  then have d1: "mshape m n ?d1" "\<forall>i\<le>m. ?d1 ! i ! 0 = i" by auto
  let ?d2 = "fold (\<lambda>j d. matrix_set d 0 j j) [0..<n + 1] ?d1"
  have "mshape m n ?d2 \<and> (\<forall>i\<le>m. ?d2 ! i ! 0 = i) \<and> (\<forall>j<n + 1. ?d2 ! 0 ! j = j)"
  proof (rule fold_upt_invariant
          [where P = "\<lambda>k d. mshape m n d \<and> (\<forall>i\<le>m. d ! i ! 0 = i) \<and> (\<forall>j<k. d ! 0 ! j = j)"])
    show "mshape m n ?d1 \<and> (\<forall>i\<le>m. ?d1 ! i ! 0 = i) \<and> (\<forall>j<0. ?d1 ! 0 ! j = j)"
      using d1 by blast
  next
    fix j y
    assume "j < n + 1" "mshape m n y \<and> (\<forall>i\<le>m. y ! i ! 0 = i) \<and> (\<forall>k<j. y ! 0 ! k = k)"
    then show "mshape m n (matrix_set y 0 j j) \<and> (\<forall>i\<le>m. matrix_set y 0 j j ! i ! 0 = i) \<and>
               (\<forall>k<Suc j. matrix_set y 0 j j ! 0 ! k = k)"
      by (auto simp: mshape_matrix_set matrix_set_nth less_Suc_eq)
  qed simp
  then have "mshape m n ?d2" "\<forall>i\<le>m. ?d2 ! i ! 0 = i" "\<forall>j\<le>n. ?d2 ! 0 ! j = j" by auto
  then show ?thesis unfolding lev_init_def Let_def by blast
qed

lemma lev_rec_0_right [simp]: "lev_rec s1 s2 i 0 = i"
  by (cases i) simp_all

lemma lev_cell_inv:
  assumes "lev_inv s1 s2 m n J I d" "1 \<le> I" "I \<le> m" "1 \<le> J" "J \<le> n"
  shows "lev_inv s1 s2 m n J (Suc I) (lev_cell s1 s2 J I d)"
proof -
  obtain i0 j0 where I: "I = Suc i0" and J: "J = Suc j0"
    using assms(2,4) by (cases I; cases J) auto
  from assms have sh: "mshape m n d" by (simp add: lev_inv_def)
  have a: "d ! i0 ! J = lev_rec s1 s2 i0 J" "d ! I ! j0 = lev_rec s1 s2 I j0"
    "d ! i0 ! j0 = lev_rec s1 s2 i0 j0"
    using assms I J by (auto simp: lev_inv_def)
  have v: "min (min (d ! (I - 1) ! J + 1) (d ! I ! (J - 1) + 1))
               (d ! (I - 1) ! (J - 1) + (if s1 ! (I - 1) = s2 ! (J - 1) then 0 else 1))
           = lev_rec s1 s2 I J"
    using a by (simp add: I J)
  show ?thesis
    unfolding lev_inv_def
  proof (intro conjI allI impI)
    show "mshape m n (lev_cell s1 s2 J I d)"
      by (simp add: lev_cell_def Let_def mshape_matrix_set sh)
  next
    fix i j assume ij: "i \<le> m" "j \<le> n" "j < J \<or> i = 0 \<or> (j = J \<and> i < Suc I)"
    have "lev_cell s1 s2 J I d ! i ! j =
          (if i = I \<and> j = J then lev_rec s1 s2 I J else d ! i ! j)"
      unfolding lev_cell_def Let_def v
      by (rule matrix_set_nth [OF sh assms(3,5) ij(1,2)])
    moreover have "\<not> (i = I \<and> j = J) \<Longrightarrow> d ! i ! j = lev_rec s1 s2 i j"
      using assms(1) ij assms(2) by (auto simp: lev_inv_def less_Suc_eq)
    ultimately show "lev_cell s1 s2 J I d ! i ! j = lev_rec s1 s2 i j" by auto
  qed
qed

lemma lev_inv_next_column:
  assumes "lev_inv s1 s2 m n J (m + 1) d"
  shows "lev_inv s1 s2 m n (Suc J) 1 d"
  unfolding lev_inv_def
proof (intro conjI allI impI)
  show "mshape m n d" using assms by (simp add: lev_inv_def)
next
  fix i j assume ij: "i \<le> m" "j \<le> n" "j < Suc J \<or> i = 0 \<or> (j = Suc J \<and> i < 1)"
  then have "j < J \<or> i = 0 \<or> (j = J \<and> i < m + 1)" by auto
  with assms ij(1,2) show "d ! i ! j = lev_rec s1 s2 i j"
    unfolding lev_inv_def by blast
qed

lemma lev_column_inv:
  assumes "lev_inv s1 s2 m n J 1 d" "1 \<le> J" "J \<le> n"
  shows "lev_inv s1 s2 m n (Suc J) 1 (fold (lev_cell s1 s2 J) [1..<m + 1] d)"
proof (rule lev_inv_next_column, rule fold_upt_invariant [where P = "\<lambda>I d. lev_inv s1 s2 m n J I d"])
  show "lev_inv s1 s2 m n J 1 d" by (rule assms(1))
next
  fix i y assume "1 \<le> i" "i < m + 1" "lev_inv s1 s2 m n J i y"
  then show "lev_inv s1 s2 m n J (Suc i) (lev_cell s1 s2 J i y)"
    using assms(2,3) by (intro lev_cell_inv) auto
qed simp

lemma lev_fill_inv:
  assumes "m = length s1" "n = length s2"
  shows "lev_inv s1 s2 m n (n + 1) 1 (lev_fill s1 s2 (lev_init m n))"
  unfolding lev_fill_def assms [symmetric]
proof (rule fold_upt_invariant [where P = "\<lambda>J d. lev_inv s1 s2 m n J 1 d"])
  show "lev_inv s1 s2 m n 1 1 (lev_init m n)"
    using lev_init_props [of m n] unfolding lev_inv_def by auto
next
  fix j y assume "1 \<le> j" "j < n + 1" "lev_inv s1 s2 m n j 1 y"
  then show "lev_inv s1 s2 m n (Suc j) 1 (fold (lev_cell s1 s2 j) [1..<m + 1] y)"
    by (intro lev_column_inv) auto
qed simp

lemma levenshteinDistance_eq: "levenshteinDistance s1 s2 = levenshtein s1 s2"
  using lev_fill_inv [OF refl refl, of s1 s2]
  unfolding levenshteinDistance_def levenshtein_def lev_inv_def Let_def by auto

lemma lev_rec_sym: "lev_rec s1 s2 i j = lev_rec s2 s1 j i"
  by (induction s1 s2 i j rule: lev_rec.induct) (auto simp: min.commute min.left_commute eq_commute)

lemma lev_rec_le_max: "lev_rec s1 s2 i j \<le> max i j"
  by (induction s1 s2 i j rule: lev_rec.induct) (auto simp: min_le_iff_disj)

subsection \<open>Name similarity\<close>

lemma includes_str_sublist: "includes_str s t \<longleftrightarrow> sublist t s"
  by (induction s) (auto simp: sublist_Cons_right)

lemma levenshtein_sym: "levenshtein s1 s2 = levenshtein s2 s1"
  unfolding levenshtein_def by (rule lev_rec_sym)

lemma levenshtein_le_max: "levenshtein s1 s2 \<le> max (length s1) (length s2)"
  unfolding levenshtein_def by (rule lev_rec_le_max)

lemma distance_ratio_range:
  fixes d m :: nat
  assumes "d \<le> m" "0 < m"
  shows "0 \<le> 1 - (of_nat d :: rat) / of_nat m" "1 - (of_nat d :: rat) / of_nat m \<le> 1"
proof -
  have "(of_nat d :: rat) / of_nat m \<le> 1"
    using assms by (simp add: divide_le_eq_1)
  then show "0 \<le> 1 - (of_nat d :: rat) / of_nat m" by simp
  show "1 - (of_nat d :: rat) / of_nat m \<le> 1" by simp
qed

lemma similarity_range:
  "0 \<le> calculateNameSimilarity a b \<and> calculateNameSimilarity a b \<le> 1"
proof (cases "clean_name a = []")
  case True
  then show ?thesis by (simp add: calculateNameSimilarity_def)
next
  case False
  let ?c1 = "clean_name a" and ?c2 = "clean_name b"
  have le: "levenshteinDistance ?c1 ?c2 \<le> max (length ?c1) (length ?c2)"
    by (simp only: levenshteinDistance_eq levenshtein_le_max)
  have pos: "0 < max (length ?c1) (length ?c2)"
    using False by (simp add: less_max_iff_disj)
  note r = distance_ratio_range [OF le pos]
  show ?thesis
    unfolding calculateNameSimilarity_def Let_def using r by auto
qed

lemma similarity_sym: "calculateNameSimilarity a b = calculateNameSimilarity b a"
  by (auto simp: calculateNameSimilarity_def Let_def levenshteinDistance_eq levenshtein_sym
      max.commute)

lemma set_sort_by_similarity [simp]: "set (sort_by_similarity xs) = set xs"
  by (simp add: sort_by_similarity_def)

lemma map_one_component_confidence:
  assumes "m \<in> set (map_one_component library c)"
  shows "\<exists>e \<in> set library. cm_confidence m = calculateNameSimilarity (fc_name c) (eds_name e)"
proof -
  let ?ms = "map (\<lambda>e. (e, calculateNameSimilarity (fc_name c) (eds_name e))) library"
  show ?thesis
  proof (cases "sort_by_similarity ?ms")
    case Nil
    with assms show ?thesis by (simp add: map_one_component_def)
  next
    case (Cons best rest)
    obtain e sim where best: "best = (e, sim)" by (cases best)
    have "cm_confidence m = sim"
      using assms Cons best by (simp add: map_one_component_def split: if_splits)
    moreover have "(e, sim) \<in> set (sort_by_similarity ?ms)"
      by (simp add: Cons best)
    then have "(e, sim) \<in> set ?ms" by (simp only: set_sort_by_similarity)
    ultimately show ?thesis by auto
  qed
qed

lemma fallback_mappings_confidence:
  assumes "m \<in> set (fallback_mappings library cs ms)"
  shows "\<exists>c \<in> set cs. \<exists>e \<in> set library.
           cm_confidence m = calculateNameSimilarity (fc_name c) (eds_name e)"
proof -
  from assms obtain c where "c \<in> set cs" "m \<in> set (map_one_component library c)"
    by (auto simp: fallback_mappings_def Let_def)
  then show ?thesis using map_one_component_confidence by blast
qed

text \<open>
  C1, as amended: \<open>calculateNameSimilarity\<close> returns 0 when either normalised string is
  empty, and otherwise computes exactly the specified algorithm (1 for equal normalised
  strings, 0.9 for containment, else one minus the unit-cost edit distance, which the
  distance matrix computes, over the longer length).
\<close>

theorem calculateNameSimilarity_algorithm:
  "calculateNameSimilarity a b =
     (if clean_name a = [] \<or> clean_name b = [] then 0 else spec_similarity a b)"
  by (simp add: calculateNameSimilarity_def spec_similarity_def Let_def levenshteinDistance_eq)

theorem calculateNameSimilarity_algorithm_witness:
  "clean_name ''Button'' \<noteq> [] \<and> clean_name ''Buton'' \<noteq> [] \<and>
   calculateNameSimilarity ''Button'' ''Buton'' = spec_similarity ''Button'' ''Buton'' \<and>
   spec_similarity ''Button'' ''Buton'' = 5 / 6"
proof -
  have c: "clean_name ''Button'' = ''button''" "clean_name ''Buton'' = ''buton''"
    by code_simp+
  have v: "spec_similarity ''Button'' ''Buton'' = 5 / 6" by code_simp
  show ?thesis
    using calculateNameSimilarity_algorithm [of "''Button''" "''Buton''"] c v by simp
qed

text \<open>
  C1 as stated fails: two names without letters or digits normalise to equal (empty)
  strings, for which the specified algorithm gives 1 and the code gives 0.
\<close>

theorem calculateNameSimilarity_counterexample:
  "spec_similarity ''---'' ''***'' = 1 \<and> calculateNameSimilarity ''---'' ''***'' = 0"
  by code_simp

text \<open>
  C7, as amended: the similarity of a name with itself is 1 whenever the name has a
  letter or digit (its normalised form is non-empty), the similarity is symmetric, and
  the similarity of the empty string with any string is 0.
\<close>

theorem calculateNameSimilarity_properties:
  "(clean_name a \<noteq> [] \<longrightarrow> calculateNameSimilarity a a = 1) \<and>
   calculateNameSimilarity a b = calculateNameSimilarity b a \<and>
   calculateNameSimilarity '''' x = 0"
  using similarity_sym [of a b]
  by (simp add: calculateNameSimilarity_def clean_name_def strip_non_alnum_def toLowerCase_def)

theorem calculateNameSimilarity_properties_witness:
  "clean_name ''Card'' \<noteq> [] \<and> calculateNameSimilarity ''Card'' ''Card'' = 1 \<and>
   calculateNameSimilarity ''Card'' ''Button'' = calculateNameSimilarity ''Button'' ''Card'' \<and>
   calculateNameSimilarity '''' ''Button'' = 0"
proof -
  have c: "clean_name ''Card'' = ''card''" by code_simp
  show ?thesis
    using calculateNameSimilarity_properties [of "''Card''" "''Button''" "''Button''"] c by simp
qed

text \<open>
  C7 as stated fails: \<open>"-"\<close> is a non-empty string whose similarity with itself is 0.
\<close>

theorem calculateNameSimilarity_self_counterexample:
  "''-'' \<noteq> [] \<and> calculateNameSimilarity ''-'' ''-'' = 0"
  by code_simp

text \<open>
  C10: the name similarity always lies in [0,1]; the distance the matrix computes never
  exceeds the length of the longer string; and every mapping the fallback pass creates
  starts with a confidence in [0,1].
\<close>

theorem calculateNameSimilarity_range:
  "0 \<le> calculateNameSimilarity a b \<and> calculateNameSimilarity a b \<le> 1 \<and>
   levenshteinDistance s1 s2 \<le> max (length s1) (length s2) \<and>
   (\<forall>m \<in> set (fallback_mappings library figmaComponents componentMappings).
      0 \<le> cm_confidence m \<and> cm_confidence m \<le> 1)"
proof (intro conjI ballI)
  show "levenshteinDistance s1 s2 \<le> max (length s1) (length s2)"
    by (simp only: levenshteinDistance_eq levenshtein_le_max)
next
  fix m assume "m \<in> set (fallback_mappings library figmaComponents componentMappings)"
  from fallback_mappings_confidence [OF this]
  obtain c e where "c \<in> set figmaComponents" "e \<in> set library"
    and "cm_confidence m = calculateNameSimilarity (fc_name c) (eds_name e)"
    by auto
  then show "0 \<le> cm_confidence m" "cm_confidence m \<le> 1"
    using similarity_range [of "fc_name c" "eds_name e"] by simp_all
qed (simp_all add: similarity_range)

theorem calculateNameSimilarity_range_witness:
  "map cm_confidence
     (fallback_mappings
        [\<lparr> eds_id = ''e1'', eds_name = ''Buton'', eds_type = ''button'', eds_description = '''',
            eds_properties = [(''label'', ()), (''sizes'', ())], eds_tags = [],
            eds_category = '''' \<rparr>]
        [\<lparr> fc_id = ''1:2'', fc_name = ''Button'', fc_type = ''COMPONENT'', fc_children = [],
            fc_properties = [(''size'', ())], fc_styles = () \<rparr>]
        []) = [5 / 6] \<and>
   0 \<le> calculateNameSimilarity ''Button'' ''Buton'' \<and>
   calculateNameSimilarity ''Button'' ''Buton'' \<le> 1 \<and>
   levenshteinDistance ''button'' ''buton'' \<le> max (length ''button'') (length ''buton'')"
proof -
  have e: "map cm_confidence
     (fallback_mappings
        [\<lparr> eds_id = ''e1'', eds_name = ''Buton'', eds_type = ''button'', eds_description = '''',
            eds_properties = [(''label'', ()), (''sizes'', ())], eds_tags = [],
            eds_category = '''' \<rparr>]
        [\<lparr> fc_id = ''1:2'', fc_name = ''Button'', fc_type = ''COMPONENT'', fc_children = [],
            fc_properties = [(''size'', ())], fc_styles = () \<rparr>]
        []) = [5 / 6]"
    by code_simp
  show ?thesis
    using e calculateNameSimilarity_range [of "''Button''" "''Buton''" "''button''" "''buton''"]
    by blast
qed

subsection \<open>Flattening\<close>

lemma fold_appends:
  assumes "\<And>x a. x \<in> set xs \<Longrightarrow> f x a = a @ g x"
  shows "fold f xs acc = acc @ concat (map g xs)"
  using assms by (induction xs arbitrary: acc) simp_all

lemma traverseNodes_preorder: "traverseNodes node parentId depth acc = acc @ preorder node parentId depth"
proof (induction node parentId depth acc rule: traverseNodes.induct)
  case (1 i n t props cs parentId depth acc)
  show ?case
  proof (cases cs)
    case None
    then show ?thesis by simp
  next
    case (Some children)
    have "fold (\<lambda>child a. traverseNodes child (Some i) (depth + 1) a) children acc' =
          acc' @ concat (map (\<lambda>child. preorder child (Some i) (depth + 1)) children)" for acc'
      by (rule fold_appends) (use 1 Some in auto)
    with Some show ?thesis by (simp add: Let_def)
  qed
qed

lemma flatten_pages_forest: "flatten_pages pages = forest (map page_node pages) None 0"
proof -
  have "fold (\<lambda>page acc. traverseNodes (page_node page) None 0 acc) pages acc =
        acc @ concat (map (\<lambda>page. preorder (page_node page) None 0) pages)" for acc
    by (rule fold_appends) (simp add: traverseNodes_preorder)
  then show ?thesis by (simp add: flatten_pages_def forest_def comp_def)
qed

lemma length_preorder: "length (preorder t q d) = count_nodes t"
proof (induction t q d rule: preorder.induct)
  case (1 i n t props cs parentId depth)
  show ?case
  proof (cases cs)
    case None then show ?thesis by simp
  next
    case (Some children)
    have "map (\<lambda>c. length (preorder c (Some i) (Suc depth))) children = map count_nodes children"
      using 1 Some by (intro map_cong) auto
    then show ?thesis by (simp add: Some length_concat comp_def del: map_eq_conv)
  qed
qed

lemma ids_preorder: "map fn_id (preorder t q d) = source_ids t"
proof (induction t q d rule: preorder.induct)
  case (1 i n t props cs parentId depth)
  show ?case
  proof (cases cs)
    case None then show ?thesis by simp
  next
    case (Some children)
    have "map (\<lambda>c. map fn_id (preorder c (Some i) (Suc depth))) children = map source_ids children"
      using 1 Some by (intro map_cong) auto
    then show ?thesis by (simp add: Some map_concat comp_def del: map_eq_conv)
  qed
qed


lemma linked_Nil: "linked R q d []"
  by (simp add: linked_def)

lemma linked_append:
  assumes "linked R q d xs" "linked R q d ys"
  shows "linked R q d (xs @ ys)"
  unfolding linked_def
proof (intro allI impI)
  fix us x vs assume eq: "xs @ ys = us @ x # vs"
  then consider (left) ws where "xs = us @ x # ws" | (right) ws where "us = xs @ ws" "ys = ws @ x # vs"
    by (auto simp: append_eq_append_conv2 append_eq_Cons_conv)
  then show "(fn_id x \<in> R \<and> fn_parentId x = q \<and> fn_depth x = d) \<or>
             (\<exists>y \<in> set us. fn_parentId x = Some (fn_id y) \<and> fn_depth x = fn_depth y + 1 \<and>
                              fn_id x \<in> set (fn_children y))"
  proof cases
    case left
    with assms(1) show ?thesis unfolding linked_def by blast
  next
    case right
    from assms(2) right(2)
    have "(fn_id x \<in> R \<and> fn_parentId x = q \<and> fn_depth x = d) \<or>
          (\<exists>y \<in> set ws. fn_parentId x = Some (fn_id y) \<and> fn_depth x = fn_depth y + 1 \<and>
                           fn_id x \<in> set (fn_children y))"
      unfolding linked_def by blast
    with right(1) show ?thesis by auto
  qed
qed

lemma linked_concat:
  assumes "\<And>xs. xs \<in> set xss \<Longrightarrow> linked R q d xs"
  shows "linked R q d (concat xss)"
  using assms by (induction xss) (auto intro: linked_Nil linked_append)

lemma linked_root:
  assumes "linked (set (fn_children e)) (Some (fn_id e)) (fn_depth e + 1) xs"
    and "fn_id e \<in> R" "fn_parentId e = q" "fn_depth e = d"
  shows "linked R q d (e # xs)"
  unfolding linked_def
proof (intro allI impI)
  fix us x vs assume eq: "e # xs = us @ x # vs"
  show "(fn_id x \<in> R \<and> fn_parentId x = q \<and> fn_depth x = d) \<or>
        (\<exists>y \<in> set us. fn_parentId x = Some (fn_id y) \<and> fn_depth x = fn_depth y + 1 \<and>
                         fn_id x \<in> set (fn_children y))"
  proof (cases us)
    case Nil
    with eq assms(2,3,4) show ?thesis by simp
  next
    case (Cons u ws)
    with eq have u: "u = e" and xs: "xs = ws @ x # vs" by auto
    from assms(1) xs
    have "(fn_id x \<in> set (fn_children e) \<and> fn_parentId x = Some (fn_id e) \<and>
           fn_depth x = fn_depth e + 1) \<or>
          (\<exists>y \<in> set ws. fn_parentId x = Some (fn_id y) \<and> fn_depth x = fn_depth y + 1 \<and>
                           fn_id x \<in> set (fn_children y))"
      unfolding linked_def by blast
    with Cons u show ?thesis by auto
  qed
qed

lemma linked_preorder: "raw_id t \<in> R \<Longrightarrow> linked R q d (preorder t q d)"
proof (induction t q d arbitrary: R rule: preorder.induct)
  case (1 i n t props cs parentId depth)
  let ?e = "\<lparr> fn_id = i, fn_name = n, fn_type = t, fn_parentId = parentId, fn_depth = depth,
       fn_children = (case cs of None \<Rightarrow> [] | Some children \<Rightarrow> map raw_id children),
       fn_properties = copied_properties props \<rparr>"
  let ?rest = "case cs of None \<Rightarrow> []
        | Some children \<Rightarrow> concat (map (\<lambda>child. preorder child (Some i) (depth + 1)) children)"
  have "linked (set (fn_children ?e)) (Some i) (depth + 1) ?rest"
  proof (cases cs)
    case None
    then show ?thesis by (simp add: linked_Nil)
  next
    case (Some children)
    have "linked (raw_id ` set children) (Some i) (depth + 1)
            (concat (map (\<lambda>child. preorder child (Some i) (depth + 1)) children))"
      by (rule linked_concat) (use 1 Some in auto)
    with Some show ?thesis by simp
  qed
  then have "linked R parentId depth (?e # ?rest)"
    using "1.prems" by (intro linked_root) simp_all
  then show ?case by simp
qed

lemma linked_forest: "linked (raw_id ` set ts) q d (forest ts q d)"
  unfolding forest_def by (rule linked_concat) (auto simp: linked_preorder)

lemma linked_nth:
  assumes "linked R q d xs" "j < length xs"
  shows "(fn_id (xs ! j) \<in> R \<and> fn_parentId (xs ! j) = q \<and> fn_depth (xs ! j) = d) \<or>
         (\<exists>i<j. fn_parentId (xs ! j) = Some (fn_id (xs ! i)) \<and>
                 fn_depth (xs ! j) = fn_depth (xs ! i) + 1 \<and>
                 fn_id (xs ! j) \<in> set (fn_children (xs ! i)))"
proof -
  have "xs = take j xs @ xs ! j # drop (Suc j) xs"
    using assms(2) by (simp add: id_take_nth_drop)
  with assms(1)
  have "(fn_id (xs ! j) \<in> R \<and> fn_parentId (xs ! j) = q \<and> fn_depth (xs ! j) = d) \<or>
        (\<exists>y \<in> set (take j xs). fn_parentId (xs ! j) = Some (fn_id y) \<and>
            fn_depth (xs ! j) = fn_depth y + 1 \<and> fn_id (xs ! j) \<in> set (fn_children y))"
    unfolding linked_def by blast
  then show ?thesis
  proof
    assume "\<exists>y \<in> set (take j xs). fn_parentId (xs ! j) = Some (fn_id y) \<and>
              fn_depth (xs ! j) = fn_depth y + 1 \<and> fn_id (xs ! j) \<in> set (fn_children y)"
    then obtain y where y: "y \<in> set (take j xs)"
      "fn_parentId (xs ! j) = Some (fn_id y)" "fn_depth (xs ! j) = fn_depth y + 1"
      "fn_id (xs ! j) \<in> set (fn_children y)" by blast
    from y(1) obtain i where "i < length (take j xs)" "take j xs ! i = y"
      by (auto simp: in_set_conv_nth)
    then have "i < j" "xs ! i = y" using assms(2) by auto
    with y show ?thesis by blast
  qed blast
qed


lemma set_preorder_ids: "fn_id ` set (preorder t q d) = set (source_ids t)"
  using ids_preorder [of t q d] by (metis set_map)

lemma set_forest_ids: "fn_id ` set (forest ts q d) = set (concat (map source_ids ts))"
proof -
  have "map fn_id (forest ts q d) = concat (map source_ids ts)"
    by (simp add: forest_def map_concat comp_def ids_preorder)
  then show ?thesis by (metis set_map)
qed

lemma preorder_hd:
  "\<exists>e rest. preorder t q d = e # rest \<and> fn_id e = raw_id t \<and> fn_parentId e = q \<and> fn_depth e = d"
  by (cases t) simp

lemma below_parents:
  "x \<in> set (tl (preorder t q d)) \<Longrightarrow> fn_parentId x \<in> Some ` set (source_ids t)"
proof (induction t q d arbitrary: x rule: preorder.induct)
  case (1 i n t props cs parentId depth)
  show ?case
  proof (cases cs)
    case None
    with "1.prems" show ?thesis by simp
  next
    case (Some children)
    with "1.prems" obtain c where c: "c \<in> set children" "x \<in> set (preorder c (Some i) (depth + 1))"
      by auto
    obtain e rest where er: "preorder c (Some i) (depth + 1) = e # rest" "fn_parentId e = Some i"
      using preorder_hd [of c "Some i" "depth + 1"] by auto
    show ?thesis
    proof (cases "x = e")
      case True
      with er show ?thesis by simp
    next
      case False
      with c er have "x \<in> set (tl (preorder c (Some i) (depth + 1)))" by simp
      then have "fn_parentId x \<in> Some ` set (source_ids c)"
        using "1.IH" [OF Some c(1)] by simp
      with c(1) Some show ?thesis by auto
    qed
  qed
qed

lemma filter_below_empty:
  assumes "p \<notin> set (source_ids t)"
  shows "filter (\<lambda>x. fn_parentId x = Some p) (tl (preorder t q d)) = []"
proof -
  have "fn_parentId x \<noteq> Some p" if "x \<in> set (tl (preorder t q d))" for x
    using below_parents [OF that] assms by auto
  then show ?thesis by (auto simp: filter_empty_conv)
qed

lemma filter_preorder_other:
  assumes "p \<notin> set (source_ids t)" "q \<noteq> Some p"
  shows "filter (\<lambda>x. fn_parentId x = Some p) (preorder t q d) = []"
proof -
  obtain e rest where er: "preorder t q d = e # rest" "fn_parentId e = q"
    using preorder_hd [of t q d] by auto
  with filter_below_empty [OF assms(1), of q d] assms(2) show ?thesis by simp
qed

lemma filter_forest_other:
  assumes "p \<notin> set (concat (map source_ids ts))" "q \<noteq> Some p"
  shows "filter (\<lambda>x. fn_parentId x = Some p) (forest ts q d) = []"
  using assms by (induction ts) (auto simp: forest_def filter_preorder_other)

lemma filter_forest_heads:
  assumes "i \<notin> set (concat (map source_ids ts))"
  shows "map fn_id (filter (\<lambda>x. fn_parentId x = Some i) (forest ts (Some i) d)) = map raw_id ts"
  using assms
proof (induction ts)
  case Nil
  then show ?case by (simp add: forest_def)
next
  case (Cons t ts)
  obtain e rest where er: "preorder t (Some i) d = e # rest" "fn_id e = raw_id t" "fn_parentId e = Some i"
    using preorder_hd [of t "Some i" d] by auto
  have "i \<notin> set (source_ids t)" using Cons.prems by simp
  from filter_below_empty [OF this, of "Some i" d] er(1)
  have "filter (\<lambda>x. fn_parentId x = Some i) rest = []" by simp
  moreover have "map fn_id (filter (\<lambda>x. fn_parentId x = Some i) (forest ts (Some i) d)) = map raw_id ts"
    using Cons by simp
  ultimately show ?case using er by (simp add: forest_def)
qed

lemma forest_Cons: "forest (t # ts) q d = preorder t q d @ forest ts q d"
  by (simp add: forest_def)

lemma filter_forest_children:
  assumes M: "\<And>t e. t \<in> set ts \<Longrightarrow> e \<in> set (preorder t q d) \<Longrightarrow>
             map fn_id (filter (\<lambda>x. fn_parentId x = Some (fn_id e)) (tl (preorder t q d))) = fn_children e"
    and "distinct (concat (map source_ids ts))"
    and "e \<in> set (forest ts q d)" and "q \<noteq> Some (fn_id e)"
  shows "map fn_id (filter (\<lambda>x. fn_parentId x = Some (fn_id e)) (forest ts q d)) = fn_children e"
  using assms
proof (induction ts)
  case Nil
  then show ?case by (simp add: forest_def)
next
  case (Cons t ts)
  let ?P = "\<lambda>x. fn_parentId x = Some (fn_id e)"
  obtain h rest where hr: "preorder t q d = h # rest" "fn_parentId h = q"
    using preorder_hd [of t q d] by auto
  from Cons.prems(2) have dis: "distinct (source_ids t)" "distinct (concat (map source_ids ts))"
    "set (source_ids t) \<inter> set (concat (map source_ids ts)) = {}" by auto
  from Cons.prems(3) consider (here) "e \<in> set (preorder t q d)" | (later) "e \<in> set (forest ts q d)"
    by (auto simp: forest_Cons)
  then show ?case
  proof cases
    case here
    then have "fn_id e \<in> set (source_ids t)"
      using set_preorder_ids [of t q d] by blast
    with dis(3) have "fn_id e \<notin> set (concat (map source_ids ts))" by blast
    then have "filter ?P (forest ts q d) = []"
      using Cons.prems(4) by (rule filter_forest_other)
    moreover have "map fn_id (filter ?P (tl (preorder t q d))) = fn_children e"
      using Cons.prems(1) [of t e] here by simp
    moreover have "filter ?P (preorder t q d) = filter ?P (tl (preorder t q d))"
      using hr Cons.prems(4) by auto
    ultimately show ?thesis by (simp add: forest_Cons)
  next
    case later
    then have "fn_id e \<in> set (concat (map source_ids ts))"
      using set_forest_ids [of ts q d] by blast
    with dis(3) have "fn_id e \<notin> set (source_ids t)" by blast
    then have "filter ?P (preorder t q d) = []"
      using Cons.prems(4) by (rule filter_preorder_other)
    moreover have "map fn_id (filter ?P (forest ts q d)) = fn_children e"
      using Cons.IH Cons.prems(1,4) dis(2) later by simp
    ultimately show ?thesis by (simp add: forest_Cons)
  qed
qed

lemma preorder_children:
  "distinct (source_ids t) \<Longrightarrow> e \<in> set (preorder t q d) \<Longrightarrow>
   map fn_id (filter (\<lambda>x. fn_parentId x = Some (fn_id e)) (tl (preorder t q d))) = fn_children e"
proof (induction t q d arbitrary: e rule: preorder.induct)
  case (1 i n t props cs parentId depth)
  let ?h = "\<lparr> fn_id = i, fn_name = n, fn_type = t, fn_parentId = parentId, fn_depth = depth,
       fn_children = (case cs of None \<Rightarrow> [] | Some children \<Rightarrow> map raw_id children),
       fn_properties = copied_properties props \<rparr>"
  show ?case
  proof (cases cs)
    case None
    with "1.prems" show ?thesis by simp
  next
    case (Some children)
    let ?F = "forest children (Some i) (depth + 1)"
    have tl_eq: "tl (preorder (RawNode i n t props cs) parentId depth) = ?F"
      using Some by (simp add: forest_def)
    from "1.prems"(1) Some have dis: "i \<notin> set (concat (map source_ids children))"
      "distinct (concat (map source_ids children))" by auto
    from "1.prems"(2) Some consider (root) "e = ?h" | (below) "e \<in> set ?F"
      by (auto simp: forest_def)
    then show ?thesis
    proof cases
      case root
      then have "fn_id e = i" "fn_children e = map raw_id children" using Some by simp_all
      then show ?thesis
        unfolding tl_eq using filter_forest_heads [OF dis(1), of "depth + 1"] by simp
    next
      case below
      then have "fn_id e \<in> set (concat (map source_ids children))"
        using set_forest_ids [of children "Some i" "depth + 1"] by blast
      with dis(1) have ne: "Some i \<noteq> Some (fn_id e)" by auto
      have "map fn_id (filter (\<lambda>x. fn_parentId x = Some (fn_id e)) ?F) = fn_children e"
      proof (rule filter_forest_children [OF _ dis(2) below ne])
        fix c e' assume c: "c \<in> set children" "e' \<in> set (preorder c (Some i) (depth + 1))"
        from dis(2) c(1) have "distinct (source_ids c)"
          by (auto simp: distinct_concat_iff)
        then show "map fn_id (filter (\<lambda>x. fn_parentId x = Some (fn_id e'))
                     (tl (preorder c (Some i) (depth + 1)))) = fn_children e'"
          using "1.IH" [OF Some c(1)] c(2) by simp
      qed
      then show ?thesis unfolding tl_eq .
    qed
  qed
qed

lemma forest_children:
  assumes "distinct (concat (map source_ids ts))" "e \<in> set (forest ts None d)"
  shows "map fn_id (filter (\<lambda>x. fn_parentId x = Some (fn_id e)) (forest ts None d)) = fn_children e"
proof (rule filter_forest_children [OF _ assms])
  fix t e' assume "t \<in> set ts" "e' \<in> set (preorder t None d)"
  moreover from assms(1) \<open>t \<in> set ts\<close> have "distinct (source_ids t)"
    by (auto simp: distinct_concat_iff)
  ultimately show "map fn_id (filter (\<lambda>x. fn_parentId x = Some (fn_id e')) (tl (preorder t None d))) = fn_children e'"
    by (simp add: preorder_children)
qed simp

subsection \<open>Style extraction\<close>


























subsection \<open>The parser's claims\<close>

text \<open>
  C4: for a design tree whose page trees are well formed (no id occurs twice) and hold N
  nodes in total, \<open>flattenNodes\<close> stores exactly the depth-first listing of the page trees:
  each page as an entry without parent at depth 0, then the listings of its children,
  every child entry naming its source parent as \<open>parentId\<close>, one level deeper than that
  parent, and every entry holding the ids of its source children. The list has exactly N
  entries; their ids are the ids of the source nodes, each once, a node before its
  children and siblings left to right; an entry either is a page (no parent, depth 0) or
  has its parent at an earlier index, with a depth one more than the parent's, and is
  listed among that parent's children; and the entries that name an entry as their parent
  are, in list order, exactly that entry's children.
\<close>

theorem flattenNodes_complete:
  fixes st :: parser_state and tree :: FigmaDesign
  defines "flat \<equiv> flatten_pages (fd_pages tree)"
  assumes "designTree st = Some tree" and "well_formed (fd_pages tree)"
  shows "flattenNodes st = Inr (st\<lparr> flattenedNodes := flat \<rparr>) \<and>
         flat = forest (map page_node (fd_pages tree)) None 0 \<and>
         length flat = total_nodes (fd_pages tree) \<and>
         map fn_id flat = document_ids (fd_pages tree) \<and>
         distinct (map fn_id flat) \<and>
         (\<forall>j<length flat.
            (fn_id (flat ! j) \<in> pg_id ` set (fd_pages tree) \<and>
             fn_parentId (flat ! j) = None \<and> fn_depth (flat ! j) = 0) \<or>
            (\<exists>i<j. fn_parentId (flat ! j) = Some (fn_id (flat ! i)) \<and>
                    fn_depth (flat ! j) = fn_depth (flat ! i) + 1 \<and>
                    fn_id (flat ! j) \<in> set (fn_children (flat ! i)))) \<and>
         (\<forall>e \<in> set flat.
            map fn_id (filter (\<lambda>x. fn_parentId x = Some (fn_id e)) flat) = fn_children e)"
proof -
  let ?ts = "map page_node (fd_pages tree)"
  have flat: "flat = forest ?ts None 0"
    unfolding flat_def by (rule flatten_pages_forest)
  have ids: "map fn_id flat = document_ids (fd_pages tree)"
    unfolding flat forest_def document_ids_def
    by (simp add: map_concat comp_def ids_preorder)
  have len: "length flat = total_nodes (fd_pages tree)"
    unfolding flat forest_def total_nodes_def
    by (simp add: length_concat comp_def length_preorder)
  have dis: "distinct (concat (map source_ids ?ts))"
    using assms(3) by (simp add: well_formed_def document_ids_def comp_def)
  have roots: "raw_id ` set ?ts = pg_id ` set (fd_pages tree)"
    by (simp add: image_image page_node_def)
  have "flattenNodes st = Inr (st\<lparr> flattenedNodes := flat \<rparr>)"
    using assms(2) by (simp add: flattenNodes_def flat_def)
  moreover have "distinct (map fn_id flat)"
    using assms(3) by (simp add: ids well_formed_def)
  moreover have "(fn_id (flat ! j) \<in> pg_id ` set (fd_pages tree) \<and>
             fn_parentId (flat ! j) = None \<and> fn_depth (flat ! j) = 0) \<or>
            (\<exists>i<j. fn_parentId (flat ! j) = Some (fn_id (flat ! i)) \<and>
                    fn_depth (flat ! j) = fn_depth (flat ! i) + 1 \<and>
                    fn_id (flat ! j) \<in> set (fn_children (flat ! i)))" if "j < length flat" for j
    using linked_nth [OF linked_forest [of ?ts None 0]] that unfolding flat roots by blast
  moreover have "map fn_id (filter (\<lambda>x. fn_parentId x = Some (fn_id e)) flat) = fn_children e"
    if "e \<in> set flat" for e
    using forest_children [OF dis, of e 0] that unfolding flat by blast
  ultimately show ?thesis using ids len flat by blast
qed

theorem flattenNodes_complete_witness:
  "designTree test_parser = Some (example_design test_pages) \<and>
   well_formed test_pages \<and> total_nodes test_pages = 3 \<and>
   flattenNodes test_parser = Inr flattened_parser \<and>
   map (\<lambda>e. (fn_id e, fn_parentId e, fn_depth e, fn_children e)) (flattenedNodes flattened_parser) =
     [(''1:1'', None, 0, [''2:1'']), (''2:1'', Some ''1:1'', 1, [''3:1'']),
      (''3:1'', Some ''2:1'', 2, [])] \<and>
   length (flatten_pages test_pages) = total_nodes test_pages \<and>
   map fn_id (flatten_pages test_pages) = document_ids test_pages"
proof -
  have t: "designTree test_parser = Some (example_design test_pages)"
    by (simp add: test_parser_def)
  have p: "fd_pages (example_design test_pages) = test_pages"
    by (simp add: example_design_def)
  have w: "well_formed (fd_pages (example_design test_pages))"
    unfolding p by code_simp
  have n: "total_nodes test_pages = 3" by code_simp
  have f: "map (\<lambda>e. (fn_id e, fn_parentId e, fn_depth e, fn_children e)) (flatten_pages test_pages) =
     [(''1:1'', None, 0, [''2:1'']), (''2:1'', Some ''1:1'', 1, [''3:1'']),
      (''3:1'', Some ''2:1'', 2, [])]"
    by code_simp
  note c = flattenNodes_complete [OF t w]
  have a: "flattenNodes test_parser = Inr flattened_parser"
    using conjunct1 [OF c] by (simp add: p flattened_parser_def)
  have l: "length (flatten_pages test_pages) = total_nodes test_pages \<and>
           map fn_id (flatten_pages test_pages) = document_ids test_pages"
    using c by (auto simp only: p)
  have fp: "flattenedNodes flattened_parser = flatten_pages test_pages"
    by (simp add: flattened_parser_def)
  from t w a f l n show ?thesis by (simp only: p fp simp_thms)
qed




text \<open>
  C9, as amended: \<open>parseJson\<close> called with the empty object throws (the malformed-document
  error, an \<open>Error\<close> with the message below) and leaves the parser as it was: nothing is
  flattened, extracted or identified by the failed call, and nothing is cleared. So the
  flattened node list, the extracted styles and the identified components are what they
  were before the call; on a newly constructed parser all three are empty afterwards.
\<close>

theorem parseJson_empty_object:
  "parseJson now empty_object st =
     (Inl (Error ''Failed to parse Figma file: Invalid Figma file format''), st) \<and>
   getFlattenedNodes (snd (parseJson now empty_object new_parser)) = [] \<and>
   getExtractedStyles (snd (parseJson now empty_object new_parser)) = [] \<and>
   getComponents (snd (parseJson now empty_object new_parser)) = []"
  by (simp add: parseJson_def empty_object_def rethrow_def new_parser_def
      getFlattenedNodes_def getExtractedStyles_def getComponents_def)

theorem parseJson_empty_object_witness:
  "parseJson ''2026-01-01T00:00:00.000Z'' empty_object test_parser =
     (Inl (Error ''Failed to parse Figma file: Invalid Figma file format''), test_parser) \<and>
   getFlattenedNodes (snd (parseJson ''2026-01-01T00:00:00.000Z'' empty_object new_parser)) = []"
  using parseJson_empty_object [of "''2026-01-01T00:00:00.000Z''" test_parser]
  by simp

text \<open>
  C9 as stated fails: a parser that has parsed the test document and is then called with
  the empty object throws, and afterwards still holds the three flattened nodes, the three
  styles and the component of the test document.
\<close>

theorem parseJson_empty_object_counterexample:
  "map_sum id fd_name (fst (parseJson ''2026-01-01T00:00:00.000Z'' test_file new_parser))
     = Inr ''Test Design'' \<and>
   fst (parseJson ''2026-01-02T00:00:00.000Z'' empty_object used_parser)
     = Inl (Error ''Failed to parse Figma file: Invalid Figma file format'') \<and>
   map fn_id (getFlattenedNodes (snd (parseJson ''2026-01-02T00:00:00.000Z'' empty_object used_parser)))
     = [''1:1'', ''2:1'', ''3:1''] \<and>
   map fst (getExtractedStyles (snd (parseJson ''2026-01-02T00:00:00.000Z'' empty_object used_parser)))
     = [''fill-2:1-SOLID'', ''fill-3:1-SOLID'', ''text-3:1''] \<and>
   map fc_id (getComponents (snd (parseJson ''2026-01-02T00:00:00.000Z'' empty_object used_parser)))
     = [''2:1'']"
  by code_simp

subsection \<open>Pattern and style analysis\<close>

lemma button_pattern_confidence [simp]:
  "cp_confidence (button_pattern flattened node) = 85 / 100"
  "cp_type (button_pattern flattened node) = ''button''"
  "cp_nodeId (button_pattern flattened node) = fn_id node"
  by (simp_all add: button_pattern_def Let_def)









lemma issue_font_size_non_standard [simp]:
  "issue_font_size (non_standard_issue show_num (s, ids)) = Some s"
  "si_severity (non_standard_issue show_num (s, ids)) = SevInfo"
  by (simp_all add: issue_font_size_def non_standard_issue_def)



text \<open>
  C2, as amended: \<open>detectButtonPatterns\<close> pushes one pattern per button candidate, and
  every pattern it pushes has the confidence 0.85 before the secondary nudges, whatever
  the node's name, corner radius and text child.
\<close>

theorem detectButtonPatterns_confidence:
  "map cp_nodeId (drop (length patterns) (detectButtonPatterns flattened patterns)) =
     map fn_id (filter (button_candidate flattened) flattened) \<and>
   (\<forall>p \<in> set (drop (length patterns) (detectButtonPatterns flattened patterns)).
      cp_type p = ''button'' \<and> cp_confidence p = 85 / 100)"
  by (auto simp: detectButtonPatterns_def comp_def)

theorem detectButtonPatterns_confidence_witness:
  "button_candidate scenario_nodes (hd scenario_nodes) \<and>
   map cp_nodeId (drop (length []) (detectButtonPatterns scenario_nodes [])) = [''2:1''] \<and>
   cp_confidence (hd (drop (length []) (detectButtonPatterns scenario_nodes []))) = 85 / 100"
proof -
  have c: "button_candidate scenario_nodes (hd scenario_nodes)" by code_simp
  have n: "map cp_nodeId (detectButtonPatterns scenario_nodes []) = [''2:1'']" by code_simp
  then have "detectButtonPatterns scenario_nodes [] \<noteq> []" by auto
  then have m: "hd (drop (length []) (detectButtonPatterns scenario_nodes []))
                  \<in> set (drop (length []) (detectButtonPatterns scenario_nodes []))"
    by simp
  have "cp_confidence (hd (drop (length []) (detectButtonPatterns scenario_nodes []))) = 85 / 100"
    using bspec [OF conjunct2 [OF detectButtonPatterns_confidence [of "[]" scenario_nodes]] m]
    by (rule conjunct2)
  with c n show ?thesis by simp
qed

text \<open>
  C2 as stated fails on the button scenario of the specification (a component named
  \<open>Primary Button\<close> with a corner radius, a visible fill and a text child): the stated
  formula gives 0.3 + 0.2 + 0.3 = 0.8, the code assigns 0.85.
\<close>

theorem detectButtonPatterns_counterexample:
  "button_candidate scenario_nodes (hd scenario_nodes) \<and>
   spec_button_confidence scenario_nodes (hd scenario_nodes) = 8 / 10 \<and>
   map cp_confidence (detectButtonPatterns scenario_nodes []) = [85 / 100]"
  by code_simp




subsection \<open>Code generation\<close>





subsection \<open>Code validation\<close>

text \<open>
  C3, as amended: the validator reports a generation result as production-ready if and
  only if the overall score (0.5 syntax + 0.3 style + 0.2 responsiveness) is at least 0.8,
  and the syntax check produced no issue of any severity, and the style check produced no
  style-critical issue.
\<close>

theorem validateCode_production_ready:
  assumes "generatedCode st = Some code"
  shows "\<exists>result st'. validateCode now st = (Inr result, st') \<and>
     vr_overallScore result =
       sy_score (vr_syntaxCheck result) * (5 / 10) + sc_score (vr_styleCheck result) * (3 / 10)
       + rc_score (vr_responsivenessCheck result) * (2 / 10) \<and>
     (vr_isProductionReady result \<longleftrightarrow>
        vr_overallScore result \<ge> 8 / 10 \<and>
        sy_issues (vr_syntaxCheck result) = [] \<and>
        filter style_critical (sc_issues (vr_styleCheck result)) = [])"
  using assms
  by (simp add: validateCode_def checkSyntax_def checkStyle_def checkResponsiveness_def Let_def
      calculateOverallScore_def split: prod.splits)

theorem validateCode_production_ready_witness:
  "generatedCode (initialize example_generated new_validator) = Some example_generated \<and>
   map_sum id (\<lambda>r. (vr_overallScore r, vr_isProductionReady r, map vi_severity (sy_issues (vr_syntaxCheck r))))
     (fst (validateCode ''2026-01-01T00:00:00.000Z''
             (initialize example_generated new_validator))) =
     Inr (19 / 20, False, [SevWarning])"
proof -
  have g: "generatedCode (initialize example_generated new_validator) = Some example_generated"
    by (simp add: initialize_def)
  have r: "map_sum id (\<lambda>r. (vr_overallScore r, vr_isProductionReady r, map vi_severity (sy_issues (vr_syntaxCheck r))))
     (fst (validateCode ''2026-01-01T00:00:00.000Z''
             (initialize example_generated new_validator))) =
     Inr (19 / 20, False, [SevWarning])"
    by code_simp
  show ?thesis
    using validateCode_production_ready [OF g] g r by simp
qed

text \<open>
  C3 as stated fails: a React component without an import gets a syntax warning; the
  overall score is 0.95, no syntax issue has error severity and no style issue is
  critical, yet the result is not production-ready.
\<close>

theorem validateCode_counterexample:
  "map_sum id
     (\<lambda>r. (vr_overallScore r \<ge> 8 / 10,
           count_severity SevError (sy_issues (vr_syntaxCheck r)),
           length (filter style_critical (sc_issues (vr_styleCheck r))),
           vr_isProductionReady r))
     (fst (validateCode ''2026-01-01T00:00:00.000Z''
             (initialize example_generated new_validator))) =
     Inr (True, 0, 0, False)"
  by code_simp

end
